theory Spec2Isabelle
  imports Complex_Main "HOL-Library.Sublist" "HOL-Library.Char_ord" "HOL-Library.List_Lexorder"
    "HOL-Library.Multiset" "HOL-Library.AList"
begin

section \<open>Payroll PDF parser (src/lib/pdf-parser.ts): shallow embedding\<close>

text \<open>
  Conventions of the embedding.
  \<^item> A JavaScript \<open>number\<close> is an exact rational. Every number the parser handles is read
    from a decimal literal of the document, and the claims compare sums and differences
    of such values against the tolerance \<open>1\<close>; rounding of IEEE doubles is not modelled.
  \<^item> A JavaScript string is a \<open>string\<close> of ASCII characters: \<open>toLowerCase\<close>, \<open>trim\<close>,
    \<open>\s\<close>, \<open>\d\<close>, \<open>\b\<close> and \<open>length\<close> are the ASCII ones.
  \<^item> An object used as a dictionary (\<open>Record<string, number>\<close>) is an association list
    in insertion order; \<open>{...a, ...b}\<close> is \<open>spread a b\<close>.
  \<^item> An exception is a value of type \<open>error\<close>; a function that can throw returns
    \<open>error + 'a\<close>.
  \<^item> The progress callback is a log of events, returned next to the result.
\<close>

subsection \<open>Strings\<close>

type_synonym number = rat

definition isDigit :: "char \<Rightarrow> bool" where
  "isDigit c = (c \<in> set ''0123456789'')"

definition isSpace :: "char \<Rightarrow> bool" where
  "isSpace c = (c \<in> set [CHR '' '', CHR 0x09, CHR 0x0A, CHR 0x0B, CHR 0x0C, CHR 0x0D])"

definition toLowerChar :: "char \<Rightarrow> char" where
  "toLowerChar c =
     (case map_of (zip ''ABCDEFGHIJKLMNOPQRSTUVWXYZ'' ''abcdefghijklmnopqrstuvwxyz'') c of
        Some d \<Rightarrow> d | None \<Rightarrow> c)"

definition toUpperChar :: "char \<Rightarrow> char" where
  "toUpperChar c =
     (case map_of (zip ''abcdefghijklmnopqrstuvwxyz'' ''ABCDEFGHIJKLMNOPQRSTUVWXYZ'') c of
        Some d \<Rightarrow> d | None \<Rightarrow> c)"

definition isLetter :: "char \<Rightarrow> bool" where
  "isLetter c = (toLowerChar c \<in> set ''abcdefghijklmnopqrstuvwxyz'')"

definition isUpper :: "char \<Rightarrow> bool" where
  "isUpper c = (c \<in> set ''ABCDEFGHIJKLMNOPQRSTUVWXYZ'')"

definition isWordChar :: "char \<Rightarrow> bool" where
  "isWordChar c = (isDigit c \<or> c = CHR ''_'' \<or> isLetter c)"

definition toLowerCase :: "string \<Rightarrow> string" where
  "toLowerCase s = map toLowerChar s"

definition trim :: "string \<Rightarrow> string" where
  "trim s = rev (dropWhile isSpace (rev (dropWhile isSpace s)))"

fun str_includes :: "string \<Rightarrow> string \<Rightarrow> bool" where
  "str_includes [] w = (w = [])"
| "str_includes (c # s) w = (prefix w (c # s) \<or> str_includes s w)"

fun join :: "string \<Rightarrow> string list \<Rightarrow> string" where
  "join sep [] = []"
| "join sep [s] = s"
| "join sep (s # t # ss) = s @ sep @ join sep (t # ss)"

subsection \<open>Regular expressions\<close>

text \<open>
  The parser's regular expressions are values of \<open>rx\<close>; \<open>rxm\<close> is a backtracking matcher
  that returns the ways a pattern can match at a position, in the priority order of
  JavaScript (greedy repetition first, alternatives left to right), so that the head of
  the list is the match JavaScript reports. A position is the character before it (for
  \<open>^\<close> and \<open>\b\<close>), the remaining input and the capture groups closed so far.
  The flag \<open>ci\<close> is the \<open>i\<close> flag.
\<close>

datatype rx =
    Eps
  | Chr char
  | Cls "char \<Rightarrow> bool"
  | Seq rx rx
  | Alt rx rx
  | Star rx
  | LazyStar rx
  | Grp rx
  | Bol
  | Eol
  | WordB

type_synonym rx_state = "char option \<times> string \<times> string list"

fun rxm :: "bool \<Rightarrow> rx \<Rightarrow> rx_state \<Rightarrow> rx_state list" where
  "rxm ci Eps st = [st]"
| "rxm ci (Chr c) (p, s, gs) = (case s of [] \<Rightarrow> []
     | d # t \<Rightarrow> if (if ci then toLowerChar c = toLowerChar d else c = d)
                then [(Some d, t, gs)] else [])"
| "rxm ci (Cls f) (p, s, gs) = (case s of [] \<Rightarrow> []
     | d # t \<Rightarrow> if f d then [(Some d, t, gs)] else [])"
| "rxm ci (Seq a b) st = concat (map (rxm ci b) (rxm ci a st))"
| "rxm ci (Alt a b) st = rxm ci a st @ rxm ci b st"
| "rxm ci (Star a) st =
     concat (map (\<lambda>st'. if length (fst (snd st')) < length (fst (snd st))
                          then rxm ci (Star a) st' else [])
                 (rxm ci a st)) @ [st]"
| "rxm ci (LazyStar a) st =
     st # concat (map (\<lambda>st'. if length (fst (snd st')) < length (fst (snd st))
                               then rxm ci (LazyStar a) st' else [])
                      (rxm ci a st))"
| "rxm ci (Grp a) (p, s, gs) =
     map (\<lambda>(q, t, gs'). (q, t, gs' @ [take (length s - length t) s])) (rxm ci a (p, s, gs))"
| "rxm ci Bol (p, s, gs) = (if p = None then [(p, s, gs)] else [])"
| "rxm ci Eol (p, s, gs) = (if s = [] then [(p, s, gs)] else [])"
| "rxm ci WordB (p, s, gs) =
     (let wprev = (case p of None \<Rightarrow> False | Some c \<Rightarrow> isWordChar c);
          wnext = (case s of [] \<Rightarrow> False | c # _ \<Rightarrow> isWordChar c)
      in if wprev \<noteq> wnext then [(p, s, gs)] else [])"

definition seqs :: "rx list \<Rightarrow> rx" where
  "seqs rs = foldr Seq rs Eps"

definition alts :: "rx list \<Rightarrow> rx" where
  "alts rs = foldr Alt (butlast rs) (last rs)"

definition lit :: "string \<Rightarrow> rx" where
  "lit s = seqs (map Chr s)"

definition plus_rx :: "rx \<Rightarrow> rx" where
  "plus_rx r = Seq r (Star r)"

definition lazy_plus :: "rx \<Rightarrow> rx" where
  "lazy_plus r = Seq r (LazyStar r)"

definition opt :: "rx \<Rightarrow> rx" where
  "opt r = Alt r Eps"

definition rep :: "nat \<Rightarrow> rx \<Rightarrow> rx" where
  "rep n r = seqs (replicate n r)"

definition rep_range :: "nat \<Rightarrow> nat \<Rightarrow> rx \<Rightarrow> rx" where
  "rep_range m n r = seqs (replicate m r @ [foldr (\<lambda>a b. opt (Seq a b)) (replicate (n - m) r) Eps])"

definition digit :: rx where "digit = Cls isDigit"
definition space :: rx where "space = Cls isSpace"
definition nonspace :: rx where "nonspace = Cls (\<lambda>c. \<not> isSpace c)"
definition dot :: rx where "dot = Cls (\<lambda>c. c \<noteq> CHR 0x0A \<and> c \<noteq> CHR 0x0D)"
definition spaces0 :: rx where "spaces0 = Star space"
definition spaces1 :: rx where "spaces1 = plus_rx space"

text \<open>The leftmost match from a position: the text skipped before it and the state after it.\<close>

fun rx_find :: "bool \<Rightarrow> rx \<Rightarrow> char option \<Rightarrow> string \<Rightarrow> (string \<times> rx_state) option" where
  "rx_find ci r p [] = (case rxm ci r (p, [], []) of st' # _ \<Rightarrow> Some ([], st') | [] \<Rightarrow> None)"
| "rx_find ci r p (c # t) = (case rxm ci r (p, c # t, []) of st' # _ \<Rightarrow> Some ([], st')
     | [] \<Rightarrow> map_option (\<lambda>(pre, st'). (c # pre, st')) (rx_find ci r (Some c) t))"

text \<open>\<open>re.test(s)\<close>\<close>

definition rx_test :: "bool \<Rightarrow> rx \<Rightarrow> string \<Rightarrow> bool" where
  "rx_test ci r s = (rx_find ci r None s \<noteq> None)"

text \<open>\<open>s.match(re)\<close> without the \<open>g\<close> flag: the capture groups of the leftmost match.\<close>

definition rx_exec :: "bool \<Rightarrow> rx \<Rightarrow> string \<Rightarrow> string list option" where
  "rx_exec ci r s = map_option (\<lambda>(pre, (q, t, gs)). gs) (rx_find ci r None s)"

text \<open>\<open>s.replace(re, repl)\<close> without the \<open>g\<close> flag: the leftmost match only.\<close>

definition rx_replace :: "bool \<Rightarrow> rx \<Rightarrow> string \<Rightarrow> string \<Rightarrow> string" where
  "rx_replace ci r repl s =
     (case rx_find ci r None s of None \<Rightarrow> s | Some (pre, (q, t, gs)) \<Rightarrow> pre @ repl @ t)"

declare rxm.simps(6,7) [simp del]
lemma rxm_length:
  "st' \<in> set (rxm ci r st) \<Longrightarrow> length (fst (snd st')) \<le> length (fst (snd st))"
proof (induction ci r st arbitrary: st' rule: rxm.induct)
  case (4 ci a b st)
  then obtain m where m: "m \<in> set (rxm ci a st)" "st' \<in> set (rxm ci b m)"
    by auto
  from "4.IH"(1)[OF m(1)] "4.IH"(2)[OF m(1) m(2)] show ?case
    by simp
next
  case (6 ci a st)
  from "6.prems" have "st' = st \<or> (\<exists>x\<in>set (rxm ci a st).
      length (fst (snd x)) < length (fst (snd st)) \<and> st' \<in> set (rxm ci (Star a) x))"
    by (subst (asm) rxm.simps(6)) (auto split: if_splits)
  then show ?case
    using "6.IH"(2) by fastforce
next
  case (7 ci a st)
  from "7.prems" have "st' = st \<or> (\<exists>x\<in>set (rxm ci a st).
      length (fst (snd x)) < length (fst (snd st)) \<and> st' \<in> set (rxm ci (LazyStar a) x))"
    by (subst (asm) rxm.simps(7)) (auto split: if_splits)
  then show ?case
    using "7.IH"(2) by fastforce
next
  case (8 ci a p s gs)
  then show ?case by fastforce
qed (auto simp: Let_def split: list.splits if_splits)

lemma rx_find_length:
  "rx_find ci r p s = Some (pre, q, t, gs) \<Longrightarrow> length pre + length t \<le> length s"
proof (induction s arbitrary: p pre)
  case Nil
  then show ?case
    using rxm_length[of "(q, t, gs)" ci r "(p, [], [])"]
    by (auto split: list.splits)
next
  case (Cons c s)
  show ?case
  proof (cases "rxm ci r (p, c # s, [])")
    case Nil
    with Cons.prems obtain pre' where "pre = c # pre'" "rx_find ci r (Some c) s = Some (pre', q, t, gs)"
      by auto
    with Cons.IH show ?thesis by fastforce
  next
    case (Cons st' sts)
    with Cons.prems have "pre = []" "st' = (q, t, gs)" by auto
    with Cons rxm_length[of "(q, t, gs)" ci r "(p, c # s, [])"] show ?thesis by simp
  qed
qed

text \<open>
  The matches of a global scan, left to right: each with the text between the previous
  match and itself; the last component is the text after the last match. After an empty
  match the scan moves one character on, as \<open>lastIndex\<close> does.
\<close>

function rx_scan :: "bool \<Rightarrow> rx \<Rightarrow> char option \<Rightarrow> string \<Rightarrow> (string \<times> string) list \<times> string" where
  "rx_scan ci r p s =
     (case rx_find ci r p s of None \<Rightarrow> ([], s)
      | Some (pre, (q, t, gs)) \<Rightarrow>
          (let m = take (length s - length pre - length t) (drop (length pre) s) in
           if m \<noteq> [] then
             (let (ms, tl) = rx_scan ci r q t in ((pre, m) # ms, tl))
           else (case t of [] \<Rightarrow> ([(pre, m)], [])
                 | c # u \<Rightarrow> (let (ms, tl) = rx_scan ci r (Some c) u in
                     (case ms of [] \<Rightarrow> ([(pre, m)], c # tl)
                      | (pre', m') # ms' \<Rightarrow> ((pre, m) # (c # pre', m') # ms', tl))))))"
  by pat_completeness auto
termination
proof (relation "measure (\<lambda>(ci, r, p, s). length s)", goal_cases)
  case 1
  show ?case by simp
next
  case (2 ci r p s x2 pre y q z t gs m)
  then have f: "rx_find ci r p s = Some (pre, q, t, gs)"
    by simp
  from 2 have "0 < length s - length pre - length t"
    by simp
  with rx_find_length[OF f] show ?case
    by simp
next
  case (3 ci r p s x2 pre y q z t gs m c u)
  then have f: "rx_find ci r p s = Some (pre, q, c # u, gs)"
    by simp
  from rx_find_length[OF f] show ?case
    by simp
qed

declare rx_scan.simps [simp del]

text \<open>\<open>s.match(re) || []\<close> with the \<open>g\<close> flag\<close>

definition rx_match_all :: "bool \<Rightarrow> rx \<Rightarrow> string \<Rightarrow> string list" where
  "rx_match_all ci r s = map snd (fst (rx_scan ci r None s))"

text \<open>\<open>s.replace(re, repl)\<close> with the \<open>g\<close> flag\<close>

definition rx_replace_all :: "bool \<Rightarrow> rx \<Rightarrow> string \<Rightarrow> string \<Rightarrow> string" where
  "rx_replace_all ci r repl s =
     (let (ms, tl) = rx_scan ci r None s
      in concat (map (\<lambda>(pre, m). pre @ repl) ms) @ tl)"

text \<open>\<open>s.split(re)\<close>, for a pattern that matches no empty string (the parser splits at \<open>\s+\<close> only)\<close>

definition rx_split :: "bool \<Rightarrow> rx \<Rightarrow> string \<Rightarrow> string list" where
  "rx_split ci r s =
     (let (ms, tl) = rx_scan ci r None s in map fst ms @ [tl])"

subsection \<open>Types\<close>

text \<open>
  The interfaces of the source. Records that share fields extend a common record
  (\<open>hrpn\<close>, \<open>name\<close>, \<open>designation\<close>; \<open>isValid\<close>, \<open>errors\<close>, \<open>warnings\<close>); the fields of
  \<open>TextItem\<close>, \<open>TextLine\<close> and of the total row carry the record's name as a prefix, and
  \<open>fields\<close> is \<open>rfields\<close>.
\<close>

record TextItem =
  item_x :: int
  item_text :: string
  item_width :: number

record TextLine =
  line_y :: int
  line_items :: "TextItem list"
  line_text :: string

record PageData =
  pageNum :: nat
  lines :: "TextLine list"

record ExtractedText =
  pages :: "PageData list"
  rawText :: string
  fullLines :: "string list"

datatype DocType = Earning | Deduction

record PdfMeta =
  type :: DocType
  month :: "string option"
  billNo :: "string option"
  office :: "string option"

record Identified =
  hrpn :: string

record EmployeeBlock = Identified +
  srNo :: nat
  rawLines :: "TextLine list"
  dataLine :: TextLine
  page :: nat

record Employee = Identified +
  name :: string
  designation :: string

record ParsedEmployee = Employee +
  emp_srNo :: nat
  "values" :: "number list"

record NormalizedHeader =
  raw :: string
  canonical :: string
  category :: string

type_synonym fieldmap = "(string \<times> number) list"

text \<open>An element of \<open>SinglePdfResult.records\<close>\<close>

record ParsedRecord = Employee +
  rfields :: fieldmap
  rawValues :: "number list"

record TotalRow =
  total_rawText :: string
  total_page :: nat
  total_values :: "number list"

record SinglePdfResult =
  result_type :: DocType
  meta :: PdfMeta
  records :: "ParsedRecord list"
  totalRow :: "TotalRow option"
  headers :: "string list"
  normalizedHeaders :: "NormalizedHeader list"

record PayrollRecord = Employee +
  earning :: fieldmap
  deduction :: fieldmap
  gross :: number
  totalDed :: number
  netPay :: number

text \<open>
  The strings of \<open>errors\<close> and \<open>warnings\<close>, as the values their templates interpolate:
  \<^item> \<open>EarningSumMismatch h s g\<close> is \<open>HRPN h: Earning sum (s) \<noteq> Gross (g)\<close>;
  \<^item> \<open>NetPayMismatch h c n\<close> is \<open>HRPN h: Gross-Ded=c \<noteq> NetPay=n\<close>;
  \<^item> \<open>InvalidHrpn h\<close> is \<open>Invalid HRPN: "h"\<close>.
\<close>

datatype message =
    EarningSumMismatch string number number
  | NetPayMismatch string number number
  | InvalidHrpn string

record RecordValidation =
  isValid :: bool
  errors :: "message list"
  warnings :: "message list"

record Summary =
  totalEmployees :: nat
  totalGross :: number
  totalDeductions :: number
  totalNetPay :: number
  earningFieldsFound :: "string list"
  deductionFieldsFound :: "string list"

record ValidationResult = RecordValidation +
  totalRecords :: nat
  validRecords :: nat
  summary :: Summary

text \<open>What the source throws: the \<open>Error\<close> of \<open>detectType\<close>, and the \<open>TypeError\<close> of
  \<open>extracted.pages[0].lines\<close> on a document without pages.\<close>

datatype error = CannotDetectType | NoFirstPage

subsection \<open>Module 1: extract text\<close>

text \<open>
  An item of \<open>textContent.items\<close>, as pdf.js delivers it: a text run with its string, the
  two translation entries \<open>transform[4]\<close> and \<open>transform[5]\<close> and its width, or a
  marked-content item, which has no \<open>str\<close>. A document is the list of its pages' items;
  decoding the PDF bytes is the library's part and not modelled.
\<close>

datatype PdfItem = TextRun string number number number | MarkedContent

text \<open>\<open>Math.round\<close>\<close>

definition round_js :: "number \<Rightarrow> int" where
  "round_js q = \<lfloor>q + 1 / 2\<rfloor>"

text \<open>The loop over the items of a page: \<open>lineMap\<close> is keyed by the rounded \<open>y\<close>.\<close>

definition addItem :: "PdfItem \<Rightarrow> (int \<times> TextItem list) list \<Rightarrow> (int \<times> TextItem list) list" where
  "addItem item lineMap =
     (case item of
        MarkedContent \<Rightarrow> lineMap
      | TextRun str tx ty w \<Rightarrow>
          if trim str = [] then lineMap
          else (let y = round_js ty;
                    new = \<lparr> item_x = round_js tx, item_text = trim str, item_width = w \<rparr>
                in case map_of lineMap y of
                     None \<Rightarrow> lineMap @ [(y, [new])]
                   | Some its \<Rightarrow> AList.update y (its @ [new]) lineMap))"

text \<open>The loop over \<open>sortedYs\<close>: the keys are distinct, so sorting the entries of \<open>lineMap\<close> by
  descending key visits the same lines in the same order.\<close>

definition makeLine :: "int \<times> TextItem list \<Rightarrow> TextLine" where
  "makeLine e =
     (let its = sort_key item_x (snd e)
      in \<lparr> line_y = fst e, line_items = its, line_text = join '' '' (map item_text its) \<rparr>)"

definition extractPage :: "PdfItem list \<Rightarrow> TextLine list" where
  "extractPage content =
     (let lineMap = fold addItem content []
      in map makeLine (sort_key (\<lambda>e. - fst e) lineMap))"

definition extractText :: "PdfItem list list \<Rightarrow> ExtractedText" where
  "extractText doc =
     (let ps = map (\<lambda>(p, content). \<lparr> pageNum = p, lines = extractPage content \<rparr>)
                   (zip [1..<Suc (length doc)] doc);
          allLines = concat (map (\<lambda>pg. map line_text (lines pg)) ps)
      in \<lparr> pages = ps, rawText = join [CHR 0x0A] allLines, fullLines = allLines \<rparr>)"

subsection \<open>Module 2: detect type\<close>

definition monthPattern :: rx where
  "monthPattern = seqs [lit ''Month'', spaces1, lit ''of'', spaces0, Chr CHR '':'', spaces0,
     Grp (seqs [plus_rx (Cls isLetter), Chr CHR ''-'', rep 4 digit])]"

definition billPattern :: rx where
  "billPattern = seqs [lit ''Bill'', spaces1, lit ''No'', Chr CHR ''.'', spaces0, Chr CHR '':'',
     spaces0, Grp (plus_rx nonspace)]"

definition officePattern :: rx where
  "officePattern = seqs [lit ''Name'', spaces1, lit ''of'', spaces1, lit ''Office'', spaces0,
     Chr CHR '':'', spaces0, Grp (lazy_plus dot),
     alts [seqs [spaces0, lit ''Bill'', spaces1, lit ''No''], Eol]]"

definition firstGroup :: "string list option \<Rightarrow> string option" where
  "firstGroup m = (case m of Some (g # _) \<Rightarrow> Some g | _ \<Rightarrow> None)"

definition detectType :: "string \<Rightarrow> error + PdfMeta" where
  "detectType raw_text =
     (let text = toLowerCase raw_text in
      if \<not> str_includes text ''earning side'' \<and> \<not> str_includes text ''deduction side''
      then Inl CannotDetectType
      else Inr \<lparr>
        type = (if str_includes text ''earning side'' then Earning else Deduction),
        month = firstGroup (rx_exec True monthPattern raw_text),
        billNo = firstGroup (rx_exec True billPattern raw_text),
        office = map_option trim (firstGroup (rx_exec True officePattern raw_text)) \<rparr>)"

subsection \<open>Module 3: parse headers\<close>

text \<open>A regular expression literal: its \<open>i\<close> flag and its pattern.\<close>

type_synonym RegExp = "bool \<times> rx"

definition test :: "RegExp \<Rightarrow> string \<Rightarrow> bool" where
  "test pattern s = rx_test (fst pattern) (snd pattern) s"

record HeaderItem =
  h_x :: int
  h_text :: string
  h_y :: int
  h_width :: number

text \<open>The result \<open>{ found, x }\<close> of a detector\<close>

record Detection =
  found :: bool
  at_x :: int

definition findItemByText :: "HeaderItem list \<Rightarrow> RegExp \<Rightarrow> HeaderItem option" where
  "findItemByText its pattern = find (\<lambda>item. test pattern (h_text item)) its"

definition findByKeyword :: "HeaderItem list \<Rightarrow> RegExp \<Rightarrow> RegExp option \<Rightarrow> Detection" where
  "findByKeyword its primaryPattern codePattern =
     (case findItemByText its primaryPattern of
        Some item \<Rightarrow> \<lparr> found = True, at_x = h_x item \<rparr>
      | None \<Rightarrow>
         (case codePattern of
            None \<Rightarrow> \<lparr> found = False, at_x = 0 \<rparr>
          | Some cp \<Rightarrow>
             (case findItemByText its cp of
                Some codeItem \<Rightarrow> \<lparr> found = True, at_x = h_x codeItem \<rparr>
              | None \<Rightarrow> \<lparr> found = False, at_x = 0 \<rparr>)))"

definition namePrefixPattern :: RegExp where
  "namePrefixPattern = (True, seqs [Bol, Grp (alts [lit ''Mr.'', lit ''Mrs.'', lit ''Miss.'',
     lit ''Ms.'', lit ''Dr.'', lit ''Shri.'', lit ''Smt.''])])"

definition isNamePrefix :: "string \<Rightarrow> bool" where
  "isNamePrefix s = test namePrefixPattern s"

type_synonym Detector = "string \<times> (HeaderItem list \<Rightarrow> string \<Rightarrow> Detection)"

definition keyword :: "string \<Rightarrow> RegExp" where
  "keyword w = (True, lit w)"

definition code :: "string \<Rightarrow> RegExp" where
  "code w = (False, lit w)"

definition wholeWord :: "string \<Rightarrow> RegExp" where
  "wholeWord w = (True, seqs [Bol, lit w, Eol])"

definition nonPrivateToken :: RegExp where
  "nonPrivateToken = (True, seqs [Bol, lit ''Non'', spaces0, lit ''Private'', Eol])"

definition nonPrivatePracticeDetector :: "HeaderItem list \<Rightarrow> string \<Rightarrow> Detection" where
  "nonPrivatePracticeDetector its text =
     (case (findItemByText its nonPrivateToken, findItemByText its (keyword ''Practice'')) of
        (Some nonPrivate, _) \<Rightarrow> \<lparr> found = True, at_x = h_x nonPrivate \<rparr>
      | (None, Some practice) \<Rightarrow> \<lparr> found = True, at_x = h_x practice \<rparr>
      | (None, None) \<Rightarrow>
          if test (True, seqs [lit ''Non'', spaces0, lit ''Private'']) text
             \<or> test (True, seqs [lit ''Practice'', spaces0, lit ''Allow'']) text
             \<or> test (True, lit ''(0128)'') text
          then (case findItemByText its (code ''0128'') of
                  Some item \<Rightarrow> \<lparr> found = True, at_x = h_x item \<rparr>
                | None \<Rightarrow> \<lparr> found = True, at_x = 500 \<rparr>)
          else \<lparr> found = False, at_x = 0 \<rparr>)"

text \<open>The three deduction detectors that first look at the whole header text\<close>

definition guardedDetector :: "RegExp \<Rightarrow> string \<Rightarrow> RegExp \<Rightarrow> HeaderItem list \<Rightarrow> string \<Rightarrow> Detection" where
  "guardedDetector phrase codeDigits word its text =
     (if test phrase text \<or> test (code codeDigits) text then
        (case findItemByText its word of
           Some item \<Rightarrow> \<lparr> found = True, at_x = h_x item \<rparr>
         | None \<Rightarrow>
            (case findItemByText its (code codeDigits) of
               Some codeItem \<Rightarrow> \<lparr> found = True, at_x = h_x codeItem \<rparr>
             | None \<Rightarrow> \<lparr> found = False, at_x = 0 \<rparr>))
      else \<lparr> found = False, at_x = 0 \<rparr>)"

definition getEarningDetectors :: "Detector list" where
  "getEarningDetectors =
   [ (''Basic Pay'', \<lambda>its text. findByKeyword its (keyword ''Basic'') None),
     (''DA (0103)'', \<lambda>its text. findByKeyword its (keyword ''DA'') (Some (code ''0103''))),
     (''HRA (0110)'', \<lambda>its text. findByKeyword its (keyword ''HRA'') (Some (code ''0110''))),
     (''CLA (0111)'', \<lambda>its text. findByKeyword its (keyword ''CLA'') (Some (code ''0111''))),
     (''Med Allow'', \<lambda>its text. findByKeyword its (keyword ''Med'') (Some (code ''0107''))),
     (''Trans Allow'', \<lambda>its text. findByKeyword its (keyword ''Trans'') (Some (code ''0113''))),
     (''Special Additional Pay'', \<lambda>its text.
        (case (findItemByText its (wholeWord ''Special''),
               findItemByText its (wholeWord ''Additional'')) of
           (Some special, Some additional) \<Rightarrow>
             \<lparr> found = True, at_x = min (h_x special) (h_x additional) \<rparr>
         | _ \<Rightarrow> findByKeyword its (keyword ''Special'') None)),
     (''Non Private Practice Allow'', nonPrivatePracticeDetector),
     (''Washing Allow'', \<lambda>its text. findByKeyword its (keyword ''Washing'') (Some (code ''0132''))),
     (''Nursing Allow'', \<lambda>its text. findByKeyword its (keyword ''Nursing'') (Some (code ''0129''))),
     (''Uniform Allow'', \<lambda>its text. findByKeyword its (keyword ''Uniform'') (Some (code ''0131''))),
     (''Book Allow'', \<lambda>its text. findByKeyword its (keyword ''Book'') (Some (code ''0104''))),
     (''ESIS Allow'', \<lambda>its text. findByKeyword its (keyword ''ESIS'') (Some (code ''0127''))),
     (''Recovery of Pay'', \<lambda>its text.
        (case findItemByText its (wholeWord ''Recovery'') of
           Some recovery \<Rightarrow> \<lparr> found = True, at_x = h_x recovery \<rparr>
         | None \<Rightarrow> findByKeyword its (keyword ''Recovery'') None)),
     (''Gross Amt'', \<lambda>its text. findByKeyword its (keyword ''Gross'') None),
     (''SLO'', \<lambda>its text. findByKeyword its (wholeWord ''SLO'') None) ]"

definition getDeductionDetectors :: "Detector list" where
  "getDeductionDetectors =
   [ (''Income Tax'', \<lambda>its text. findByKeyword its (keyword ''Income'') (Some (code ''9510''))),
     (''Prof Tax'', \<lambda>its text. findByKeyword its (keyword ''Prof'') (Some (code ''9570''))),
     (''R&B'', \<lambda>its text. findByKeyword its (keyword ''R&B'') (Some (code ''9550''))),
     (''GPF Reg Class 4'', \<lambda>its text. findByKeyword its (keyword ''Class'') (Some (code ''9531''))),
     (''GPF Reg'', guardedDetector (True, seqs [lit ''GPF'', spaces0, lit ''Reg'']) ''9670''
        (keyword ''GPF'')),
     (''NPS Reg'', \<lambda>its text. findByKeyword its (keyword ''NPS'') (Some (code ''9534''))),
     (''Govt Fund'', guardedDetector (True, seqs [lit ''Govt'', spaces0, lit ''Fund'']) ''9581''
        (keyword ''Fund'')),
     (''Govt Saving'', guardedDetector (True, seqs [lit ''Govt'', spaces0, lit ''Saving'']) ''9582''
        (keyword ''Saving'')),
     (''Total Ded'', \<lambda>its text.
        findByKeyword its (True, seqs [lit ''Total'', spaces0, lit ''Ded'']) None),
     (''Net Pay'', \<lambda>its text.
        findByKeyword its (True, seqs [lit ''Net'', spaces0, lit ''Pay'']) None) ]"

definition phoneMobile :: RegExp where
  "phoneMobile = (True, alts [lit ''phone'', lit ''mobile''])"

definition dataRowStart :: RegExp where
  "dataRowStart = (False, seqs [Bol, plus_rx digit, spaces1, rep 8 digit])"

text \<open>The first loop of \<open>parseHeadersSmart\<close>; \<open>inHeaderZone\<close> is the flag of the source.\<close>

fun collectHeaderItems :: "bool \<Rightarrow> TextLine list \<Rightarrow> HeaderItem list" where
  "collectHeaderItems inHeaderZone [] = []"
| "collectHeaderItems inHeaderZone (line # rest) =
     (if test phoneMobile (line_text line) then collectHeaderItems True rest
      else if inHeaderZone then
        (if test dataRowStart (line_text line) \<or> isNamePrefix (trim (line_text line)) then []
         else map (\<lambda>item. \<lparr> h_x = item_x item, h_text = item_text item, h_y = line_y line,
                             h_width = item_width item \<rparr>) (line_items line)
              @ collectHeaderItems inHeaderZone rest)
      else collectHeaderItems inHeaderZone rest)"

definition getDetectors :: "DocType \<Rightarrow> Detector list" where
  "getDetectors pdfType = (if pdfType = Earning then getEarningDetectors else getDeductionDetectors)"

text \<open>The loop over the detectors: \<open>foundHeaders\<close> before it is sorted.\<close>

definition foundHeaders :: "Detector list \<Rightarrow> HeaderItem list \<Rightarrow> (string \<times> int) list" where
  "foundHeaders detectors headerItems =
     (let rawHeaderText = join '' '' (map h_text headerItems)
      in concat (map (\<lambda>detector.
           let result = snd detector headerItems rawHeaderText
           in if found result then [(fst detector, at_x result)] else []) detectors))"

record HeaderResult =
  header_labels :: "string list"
  header_isValid :: bool
  rawHeaderText :: string

definition parseHeadersSmart :: "TextLine list \<Rightarrow> DocType \<Rightarrow> HeaderResult" where
  "parseHeadersSmart pageLines pdfType =
     (let headerItems = collectHeaderItems False pageLines in
      if headerItems = [] then \<lparr> header_labels = [], header_isValid = False, rawHeaderText = [] \<rparr>
      else
        (let fh = sort_key snd (foundHeaders (getDetectors pdfType) headerItems)
         in \<lparr> header_labels = map fst fh, header_isValid = (fh \<noteq> []),
              rawHeaderText = join '' '' (map h_text headerItems) \<rparr>))"

subsection \<open>Module 4: segment rows\<close>

definition isNamePrefixLine :: "string \<Rightarrow> bool" where
  "isNamePrefixLine s = test namePrefixPattern (trim s)"

definition totalPattern :: RegExp where
  "totalPattern = (True, seqs [Bol, lit ''total'', WordB])"

definition isSkipLine :: "string \<Rightarrow> bool" where
  "isSkipLine s =
     (if s = [] \<or> trim s = [] then True
      else if test (True, alts [lit ''karmyogi'', lit ''gujarat.gov'']) s then True
      else if test totalPattern s then True
      else if test (True, alts [lit ''hereby certify'',
                seqs [lit ''rupees'', spaces0, Grp (alts [Chr CHR ''('', Chr CHR '':''])],
                lit ''superintendent'', seqs [lit ''cardex'', spaces0, lit ''no''],
                seqs [lit ''date'', spaces0, Chr CHR '':'']]) s then True
      else if test (True, alts [lit ''PAYBILL'', lit ''INNER SHEET'', lit ''D.D.O'',
                seqs [lit ''Name'', spaces1, lit ''of'', spaces1,
                      Grp (alts [lit ''Office'', lit ''D.D.O'', lit ''Ministry''])],
                seqs [lit ''Phone'', spaces0, lit ''no''], lit ''Taluka'', lit ''E-Mail'',
                lit ''Address'', lit ''Department'', seqs [lit ''Major'', spaces1, lit ''Head''],
                seqs [lit ''TAN'', spaces1, lit ''No''], seqs [lit ''Bill'', spaces1, lit ''No''],
                seqs [lit ''Cardex'', spaces1, lit ''No'']]) s then True
      else if test (True, seqs [Bol, lit ''ESIS'', spaces1, lit ''General'', spaces1,
                lit ''Hospital'']) s then True
      else False)"

definition numberPattern :: rx where
  "numberPattern = seqs [opt (Chr CHR ''-''), plus_rx digit, opt (Chr CHR ''.''), Star digit]"

text \<open>\<open>parseInt\<close> of a string of digits\<close>

definition digitValue :: "char \<Rightarrow> nat" where
  "digitValue c = (case map_of (zip ''0123456789'' [0, 1, 2, 3, 4, 5, 6, 7, 8, 9]) c of
      Some n \<Rightarrow> n | None \<Rightarrow> 0)"

definition parseInt :: "string \<Rightarrow> nat" where
  "parseInt ds = foldl (\<lambda>n c. 10 * n + digitValue c) 0 ds"

text \<open>\<open>Number\<close> and \<open>parseFloat\<close> on a match of \<open>numberPattern\<close>: sign, integer digits, and
  the digits after the point if there are any.\<close>

definition parseNumber :: "string \<Rightarrow> number" where
  "parseNumber s =
     (let neg = (take 1 s = ''-'');
          body = (if neg then drop 1 s else s);
          ip = takeWhile isDigit body;
          fp = takeWhile isDigit (drop (Suc (length ip)) body);
          v = of_nat (parseInt ip) + of_nat (parseInt fp) / 10 ^ length fp
      in if neg then - v else v)"

definition extractNumbers :: "string \<Rightarrow> number list" where
  "extractNumbers s = map parseNumber (rx_match_all False numberPattern s)"

definition anchorLine :: RegExp where
  "anchorLine = (False, seqs [Bol, plus_rx digit, spaces1, rep 8 digit, space])"

definition anchorGroups :: RegExp where
  "anchorGroups = (False, seqs [Bol, Grp (plus_rx digit), spaces1, Grp (rep 8 digit), space])"

text \<open>The trimmed text of line \<open>i\<close> of a page\<close>

definition lineText :: "TextLine list \<Rightarrow> nat \<Rightarrow> string" where
  "lineText ls i = trim (line_text (ls ! i))"

definition dataLineIndices :: "TextLine list \<Rightarrow> nat list" where
  "dataLineIndices ls = filter (\<lambda>i. test anchorLine (line_text (ls ! i))) [0..<length ls]"

definition headerEndIdx :: "TextLine list \<Rightarrow> nat" where
  "headerEndIdx ls =
     (case find (\<lambda>i. isNamePrefixLine (lineText ls i) \<or> test anchorLine (line_text (ls ! i)))
             [0..<length ls] of
        Some i \<Rightarrow> i | None \<Rightarrow> 0)"

text \<open>
  The indices of the lines pushed to \<open>blockLines\<close> for the \<open>d\<close>-th anchor of a page, in the
  order of the three loops: from \<open>thisEmployeeStart\<close> up to the anchor, the anchor, and the
  lines after it up to the first total or name-prefix line.
\<close>

definition regionStart :: "TextLine list \<Rightarrow> nat list \<Rightarrow> nat \<Rightarrow> nat" where
  "regionStart ls dli d = (if d = 0 then headerEndIdx ls else dli ! (d - 1) + 1)"

definition thisEmployeeStart :: "TextLine list \<Rightarrow> nat list \<Rightarrow> nat \<Rightarrow> nat" where
  "thisEmployeeStart ls dli d =
     (case find (\<lambda>i. \<not> isSkipLine (lineText ls i) \<and> (isNamePrefixLine (lineText ls i) \<or> d = 0))
             [regionStart ls dli d..<dli ! d] of
        Some i \<Rightarrow> i | None \<Rightarrow> dli ! d)"

definition nextBoundary :: "TextLine list \<Rightarrow> nat list \<Rightarrow> nat \<Rightarrow> nat" where
  "nextBoundary ls dli d = (if d < length dli - 1 then dli ! (d + 1) else length ls)"

definition blockIndices :: "TextLine list \<Rightarrow> nat list \<Rightarrow> nat \<Rightarrow> nat list" where
  "blockIndices ls dli d =
     filter (\<lambda>i. \<not> isSkipLine (lineText ls i)) [thisEmployeeStart ls dli d..<dli ! d]
     @ [dli ! d]
     @ takeWhile (\<lambda>i. \<not> test totalPattern (lineText ls i) \<and> \<not> isNamePrefixLine (lineText ls i))
         (filter (\<lambda>i. \<not> isSkipLine (lineText ls i)) [dli ! d + 1..<nextBoundary ls dli d])"

definition makeBlock :: "PageData \<Rightarrow> nat list \<Rightarrow> nat \<Rightarrow> EmployeeBlock option" where
  "makeBlock pg dli d =
     (case rx_exec (fst anchorGroups) (snd anchorGroups) (line_text (lines pg ! (dli ! d))) of
        Some [g1, g2] \<Rightarrow>
          Some \<lparr> hrpn = g2, srNo = parseInt g1,
                 rawLines = map (\<lambda>i. lines pg ! i) (blockIndices (lines pg) dli d),
                 dataLine = lines pg ! (dli ! d), page = pageNum pg \<rparr>
      | _ \<Rightarrow> None)"

text \<open>The blocks \<open>segmentRows\<close> pushes for one page\<close>

definition pageBlocks :: "PageData \<Rightarrow> EmployeeBlock list" where
  "pageBlocks pg =
     (let dli = dataLineIndices (lines pg)
      in List.map_filter (makeBlock pg dli) [0..<length dli])"

definition pageTotals :: "PageData \<Rightarrow> TotalRow list" where
  "pageTotals pg =
     map (\<lambda>l. \<lparr> total_rawText = line_text l, total_page = pageNum pg,
                 total_values = extractNumbers (line_text l) \<rparr>)
         (filter (\<lambda>l. test totalPattern (trim (line_text l))) (lines pg))"

record Segmentation =
  employees :: "EmployeeBlock list"
  seg_totalRow :: "TotalRow option"

definition segmentRows :: "PageData list \<Rightarrow> Segmentation" where
  "segmentRows pgs =
     \<lparr> employees = concat (map pageBlocks pgs),
       seg_totalRow = (case concat (map pageTotals pgs) of [] \<Rightarrow> None | ts \<Rightarrow> Some (last ts)) \<rparr>"

subsection \<open>Module 5: parse employee block\<close>

definition DESIGNATIONS :: "string list" where
  "DESIGNATIONS =
   [''Specialist'', ''Insurance Medical Officer'', ''Administrative Officer'', ''Junior Clerk'',
    ''Senior Clerk'', ''Junior Pharmacist'', ''Senior Pharmacist'', ''Matron'',
    ''Laboratory Technician'', ''Physiotherapist'', ''Head Nurse'', ''Staff Nurse'',
    ''Superintendent'', ''Peon'', ''Sweeper'', ''Watchman'', ''Driver'', ''Class-IV'',
    ''Class-III'']"

definition isDesignation :: "string \<Rightarrow> bool" where
  "isDesignation s = list_ex (\<lambda>d. toLowerCase (trim s) = toLowerCase d) DESIGNATIONS"

definition digits45 :: rx where
  "digits45 = rep_range 4 5 digit"

definition isPayScale :: "string \<Rightarrow> bool" where
  "isPayScale s = test (True, seqs [Bol, Grp (alts [
       seqs [lit ''PB-'', digit], seqs [lit ''pb-'', digit],
       seqs [digits45, lit '')/''], seqs [digits45, Chr CHR ''-'', digit],
       lit ''37400-'', lit ''20200)'', lit ''34800)'', lit ''39100)'', lit ''67000'',
       lit ''4440-''])]) (trim s)"

definition notParen :: rx where
  "notParen = Cls (\<lambda>c. c \<noteq> CHR '')'')"

definition removePayScaleFromLine :: "string \<Rightarrow> string" where
  "removePayScaleFromLine s =
     (let s = rx_replace_all True (seqs [spaces0, lit ''PB-'', digit, spaces0, Chr CHR ''('',
                Star notParen, opt (Chr CHR ''-''), Eol]) [] s;
          s = rx_replace_all True (seqs [spaces0, lit ''PB-'', digit, spaces0, Chr CHR ''('',
                Star notParen, lit '')/'', plus_rx digit]) [] s;
          s = rx_replace_all False (seqs [spaces0, digits45, lit '')/'', plus_rx digit]) [] s;
          s = rx_replace_all False (seqs [spaces0, rep 5 digit, Chr CHR ''-'', rep 5 digit,
                Chr CHR ''/'', plus_rx digit]) [] s;
          s = rx_replace_all False (seqs [spaces0, rep 4 digit, Chr CHR ''-'', rep 4 digit,
                Chr CHR ''/'', rep 4 digit]) [] s;
          s = rx_replace_all False (seqs [spaces0, rep 4 digit, Chr CHR ''/'', rep 4 digit]) [] s;
          s = rx_replace_all False (seqs [spaces0, lit ''4440-'', spaces0]) [] s
      in trim s)"

definition isPartOfDesignation :: "string list \<Rightarrow> nat \<Rightarrow> bool" where
  "isPartOfDesignation tokens i = (i > 0 \<and> toLowerCase (tokens ! (i - 1)) = ''class'')"

text \<open>\<open>s.indexOf(w)\<close>: \<open>None\<close> is \<open>-1\<close>.\<close>

definition indexOf :: "string \<Rightarrow> string \<Rightarrow> nat option" where
  "indexOf s w = find (\<lambda>i. prefix w (drop i s)) [0..<Suc (length s)]"

record DesignationMatch =
  matched :: string
  namePart :: string
  afterDesig :: string

definition findDesignation :: "string \<Rightarrow> DesignationMatch option" where
  "findDesignation s =
     (let sorted = sort_key (\<lambda>d. - int (length d)) DESIGNATIONS
      in case List.map_filter (\<lambda>desig. map_option (\<lambda>idx. (idx, desig))
                (indexOf (toLowerCase s) (toLowerCase desig))) sorted of
           [] \<Rightarrow> None
         | (idx, desig) # _ \<Rightarrow>
             Some \<lparr> matched = take (length desig) (drop idx s), namePart = take idx s,
                    afterDesig = drop (idx + length desig) s \<rparr>)"

text \<open>The state of the loop over \<open>rawLines\<close>\<close>

record NameScan =
  namesBefore :: "string list"
  namesAfter :: "string list"
  desig :: string
  foundDataLine :: bool

definition pushName :: "string \<Rightarrow> NameScan \<Rightarrow> NameScan" where
  "pushName n st = (if \<not> foundDataLine st then st\<lparr>namesBefore := namesBefore st @ [n]\<rparr>
                    else st\<lparr>namesAfter := namesAfter st @ [n]\<rparr>)"

text \<open>One iteration; \<open>line === dataLine\<close> compares references, and the lines of a page are
  pairwise different values (their \<open>y\<close> differ), so it is equality here.\<close>

definition scanLine :: "TextLine \<Rightarrow> TextLine \<Rightarrow> NameScan \<Rightarrow> NameScan" where
  "scanLine dl line st =
     (if line = dl then st\<lparr>foundDataLine := True\<rparr>
      else if isPayScale (trim (line_text line)) then st
      else
        (let cleaned = removePayScaleFromLine (trim (line_text line)) in
         if test (False, seqs [Bol, Chr CHR ''('', Star dot, Chr CHR '')'', Eol]) cleaned then
           (if desig st \<noteq> [] then st\<lparr>desig := desig st @ '' '' @ cleaned\<rparr> else st)
         else if cleaned = [] then st
         else
           (case findDesignation cleaned of
              Some desigInLine \<Rightarrow>
                (let st = (if desig st = [] then st\<lparr>desig := matched desigInLine\<rparr> else st);
                     nameBit = trim (namePart desigInLine)
                 in if nameBit \<noteq> [] then pushName nameBit st else st)
            | None \<Rightarrow>
                if isDesignation cleaned
                then (if desig st = [] then st\<lparr>desig := cleaned\<rparr> else st)
                else pushName cleaned st)))"

definition isNumberToken :: "string \<Rightarrow> bool" where
  "isNumberToken s = test (False, seqs [Bol, numberPattern, Eol]) s"

text \<open>Where the numeric values begin: the number of \<open>textTokens\<close> and \<open>numericStartIdx\<close>;
  \<open>None\<close> is \<open>-1\<close> with no text tokens.\<close>

definition numericStart :: "DocType \<Rightarrow> string list \<Rightarrow> (nat \<times> nat) option" where
  "numericStart pdfType tokens =
     (let flagAt = (if pdfType = Earning then
             find (\<lambda>i. (tokens ! i = ''No'' \<or> tokens ! i = ''Yes'') \<and> i + 1 < length tokens
                        \<and> test (False, seqs [Bol, Cls isUpper, Eol]) (tokens ! (i + 1)))
                  [0..<length tokens]
           else None)
      in case flagAt of
           Some i \<Rightarrow> Some (i, i + 2)
         | None \<Rightarrow> map_option (\<lambda>i. (i, i))
             (find (\<lambda>i. isNumberToken (tokens ! i) \<and> \<not> isPartOfDesignation tokens i)
                   [0..<length tokens]))"

definition parseEmployeeBlock :: "EmployeeBlock \<Rightarrow> DocType \<Rightarrow> ParsedEmployee" where
  "parseEmployeeBlock block pdfType =
     (let st = fold (scanLine (dataLine block)) (rawLines block)
                 \<lparr> namesBefore = [], namesAfter = [], desig = [], foundDataLine = False \<rparr>;
          afterHrpn = rx_replace False (seqs [Bol, plus_rx digit, spaces1, rep 8 digit, spaces1]) []
                        (line_text (dataLine block));
          tokens = rx_split False spaces1 afterHrpn;
          boundary = numericStart pdfType tokens;
          textTokens = (case boundary of None \<Rightarrow> [] | Some (n, i) \<Rightarrow> take n tokens);
          numericStartIdx = map_option snd boundary;
          textStr = join '' '' textTokens;
          desigMatch = findDesignation textStr;
          designation1 = (case desigMatch of
                            Some m \<Rightarrow> if desig st = [] then matched m else desig st
                          | None \<Rightarrow> desig st);
          nameInDataLine = (case desigMatch of
                              Some m \<Rightarrow> trim (namePart m) | None \<Rightarrow> trim textStr);
          allNameParts = filter (\<lambda>n. n \<noteq> []) (namesBefore st)
                         @ (if nameInDataLine \<noteq> [] then [nameInDataLine] else [])
                         @ filter (\<lambda>n. n \<noteq> []) (namesAfter st);
          fullName = trim (rx_replace_all False spaces1 '' '' (join '' '' allNameParts));
          fullName = trim (rx_replace_all False spaces1 '' '' (removePayScaleFromLine fullName));
          numericPart = (case numericStartIdx of
                           Some i \<Rightarrow> join '' '' (drop i tokens) | None \<Rightarrow> []);
          vs = map parseNumber (rx_match_all False numberPattern numericPart)
      in \<lparr> hrpn = hrpn block, name = fullName, designation = designation1,
           emp_srNo = srNo block, values = vs \<rparr>)"

subsection \<open>Module 6: normalize fields\<close>

text \<open>Words with \<open>\s*\<close> between them\<close>

definition phrase :: "string list \<Rightarrow> rx" where
  "phrase ws = seqs (butlast (concat (map (\<lambda>w. [lit w, spaces0]) ws)))"

definition word :: "string \<Rightarrow> rx" where
  "word w = seqs [WordB, lit w, WordB]"

definition HEADER_NORMALIZATION_MAP :: "(rx \<times> string \<times> string) list" where
  "HEADER_NORMALIZATION_MAP =
   [ (phrase [''basic'', ''pay''], ''basic'', ''earning''),
     (word ''da'', ''da'', ''earning''),
     (word ''hra'', ''hra'', ''earning''),
     (word ''cla'', ''cla'', ''earning''),
     (phrase [''med'', ''allow''], ''medAllow'', ''earning''),
     (phrase [''trans'', ''allow''], ''transAllow'', ''earning''),
     (phrase [''special'', ''additional'', ''pay''], ''specialPay'', ''earning''),
     (phrase [''non'', ''private'', ''practice'', ''allow''], ''nppAllow'', ''earning''),
     (phrase [''washing'', ''allow''], ''washingAllow'', ''earning''),
     (phrase [''nursing'', ''allow''], ''nursingAllow'', ''earning''),
     (phrase [''uniform'', ''allow''], ''uniformAllow'', ''earning''),
     (phrase [''book'', ''allow''], ''bookAllow'', ''earning''),
     (phrase [''esis'', ''allow''], ''esisAllow'', ''earning''),
     (phrase [''recovery'', ''of'', ''pay''], ''recoveryOfPay'', ''earning''),
     (phrase [''gross'', ''amt''], ''gross'', ''earning''),
     (word ''slo'', ''slo'', ''earning''),
     (phrase [''income'', ''tax''], ''incomeTax'', ''deduction''),
     (phrase [''prof'', ''tax''], ''profTax'', ''deduction''),
     (phrase [''r'', ''&'', ''b''], ''rnb'', ''deduction''),
     (phrase [''gpf'', ''reg'', ''class'', ''4''], ''gpfClass4'', ''deduction''),
     (seqs [phrase [''gpf'', ''reg''], WordB], ''gpfReg'', ''deduction''),
     (phrase [''nps'', ''reg''], ''npsReg'', ''deduction''),
     (seqs [lit ''gov'', opt (Chr CHR ''t''), spaces0, lit ''fund''], ''govtFund'', ''deduction''),
     (seqs [lit ''gov'', opt (Chr CHR ''t''), spaces0, lit ''saving''], ''govtSaving'', ''deduction''),
     (phrase [''total'', ''ded''], ''totalDed'', ''deduction''),
     (phrase [''net'', ''pay''], ''netPay'', ''deduction'') ]"

definition capitalize :: "string \<Rightarrow> string" where
  "capitalize w = (case w of [] \<Rightarrow> [] | c # cs \<Rightarrow> toUpperChar c # toLowerCase cs)"

definition fallbackKey :: "string \<Rightarrow> string" where
  "fallbackKey rawHeader =
     (let stripped = rx_replace_all False (seqs [Chr CHR ''('', Star notParen, Chr CHR '')'']) []
                       rawHeader
      in case rx_split False spaces1 (trim stripped) of
           [] \<Rightarrow> []
         | w # ws \<Rightarrow> concat (toLowerCase w # map capitalize ws))"

text \<open>The pair \<open>(canonical, category)\<close>\<close>

definition normalizeHeader :: "string \<Rightarrow> string \<times> string" where
  "normalizeHeader rawHeader =
     (case find (\<lambda>mapping. rx_test True (fst mapping) rawHeader) HEADER_NORMALIZATION_MAP of
        Some mapping \<Rightarrow> snd mapping
      | None \<Rightarrow>
          (let fallback = fallbackKey rawHeader
           in (if fallback = [] then ''unknown'' else fallback, ''unknown'')))"

definition normalizeFields :: "string list \<Rightarrow> number list \<Rightarrow> fieldmap" where
  "normalizeFields hs vs =
     fold (\<lambda>i rec. AList.update (fst (normalizeHeader (hs ! i)))
                                 (if i < length vs then vs ! i else 0) rec)
          [0..<length hs] []"

subsection \<open>Module 7: merge payroll\<close>

text \<open>\<open>{...a, ...b}\<close>: the keys of \<open>a\<close> keep their place, with the value of \<open>b\<close> where \<open>b\<close>
  has the key; the new keys of \<open>b\<close> follow in the order of \<open>b\<close>.\<close>

definition spread :: "fieldmap \<Rightarrow> fieldmap \<Rightarrow> fieldmap" where
  "spread a b = fold (\<lambda>kv m. AList.update (fst kv) (snd kv) m) b a"

text \<open>The entry \<open>payrollMap.set\<close> stores for an identifier not yet in the map\<close>

definition newEntry :: "ParsedRecord \<Rightarrow> PayrollRecord" where
  "newEntry rec = \<lparr> hrpn = hrpn rec, name = name rec, designation = designation rec,
     earning = [], deduction = [], gross = 0, totalDed = 0, netPay = 0 \<rparr>"

text \<open>\<open>payrollMap.get(rec.hrpn)\<close> after the \<open>if (!payrollMap.has(rec.hrpn))\<close> block\<close>

definition getEntry :: "(string \<times> PayrollRecord) list \<Rightarrow> ParsedRecord \<Rightarrow> PayrollRecord" where
  "getEntry payrollMap rec =
     (case map_of payrollMap (hrpn rec) of None \<Rightarrow> newEntry rec | Some entry \<Rightarrow> entry)"

text \<open>Longest name and longest designation win (the two \<open>if\<close>s both loops share)\<close>

definition longestNames :: "ParsedRecord \<Rightarrow> PayrollRecord \<Rightarrow> PayrollRecord" where
  "longestNames rec entry =
     (let entry1 = (if length (name rec) > length (name entry)
                    then entry\<lparr>name := name rec\<rparr> else entry)
      in if designation rec \<noteq> [] \<and>
            (designation entry1 = [] \<or> length (designation rec) > length (designation entry1))
         then entry1\<lparr>designation := designation rec\<rparr> else entry1)"

text \<open>The body of the loop over \<open>earningRecords\<close>, from \<open>payrollMap.get\<close> on: what it does
  to the entry of the record's identifier.\<close>

definition earningEntry :: "ParsedRecord \<Rightarrow> PayrollRecord \<Rightarrow> PayrollRecord" where
  "earningEntry rec entry0 =
     (let entry = longestNames rec entry0;
          entry = entry\<lparr>earning := spread (earning entry) (rfields rec)\<rparr>
      in case map_of (rfields rec) ''gross'' of
           Some g \<Rightarrow> if g \<noteq> 0 then entry\<lparr>gross := g\<rparr> else entry
         | None \<Rightarrow> entry)"

text \<open>The map is an association list in insertion order, as a JavaScript \<open>Map\<close> is; the
  entry is an object of the map, mutated in place.\<close>

definition mergeEarning :: "ParsedRecord \<Rightarrow> (string \<times> PayrollRecord) list \<Rightarrow> (string \<times> PayrollRecord) list" where
  "mergeEarning rec payrollMap =
     AList.update (hrpn rec) (earningEntry rec (getEntry payrollMap rec)) payrollMap"

text \<open>The body of the loop over \<open>deductionRecords\<close>\<close>

definition deductionEntry :: "ParsedRecord \<Rightarrow> PayrollRecord \<Rightarrow> PayrollRecord" where
  "deductionEntry rec entry0 =
     (let entry = longestNames rec entry0;
          deductionFields = rfields rec;
          (entry, deductionFields) = (case map_of deductionFields ''totalDed'' of
              Some v \<Rightarrow> (entry\<lparr>totalDed := v\<rparr>, AList.delete ''totalDed'' deductionFields)
            | None \<Rightarrow> (entry, deductionFields));
          (entry, deductionFields) = (case map_of deductionFields ''netPay'' of
              Some v \<Rightarrow> (entry\<lparr>netPay := v\<rparr>, AList.delete ''netPay'' deductionFields)
            | None \<Rightarrow> (entry, deductionFields))
      in entry\<lparr>deduction := spread (deduction entry) deductionFields\<rparr>)"

definition mergeDeduction :: "ParsedRecord \<Rightarrow> (string \<times> PayrollRecord) list \<Rightarrow> (string \<times> PayrollRecord) list" where
  "mergeDeduction rec payrollMap =
     AList.update (hrpn rec) (deductionEntry rec (getEntry payrollMap rec)) payrollMap"

text \<open>\<open>localeCompare\<close> on identifiers, which are strings of ASCII digits, is the
  lexicographic order of the characters; \<open>Array.prototype.sort\<close> is stable, as \<open>sort_key\<close> is.\<close>

definition mergePayroll :: "ParsedRecord list \<Rightarrow> ParsedRecord list \<Rightarrow> PayrollRecord list" where
  "mergePayroll earningRecords deductionRecords =
     (let payrollMap = fold mergeEarning earningRecords [];
          payrollMap = fold mergeDeduction deductionRecords payrollMap;
          results = map snd payrollMap
      in sort_key hrpn results)"

text \<open>\<open>existing\<close> is the first element of \<open>combined\<close> with the identifier; it is mutated in place.\<close>

fun updateFirst :: "('a \<Rightarrow> bool) \<Rightarrow> ('a \<Rightarrow> 'a) \<Rightarrow> 'a list \<Rightarrow> 'a list" where
  "updateFirst P f [] = []"
| "updateFirst P f (r # rs) = (if P r then f r # rs else r # updateFirst P f rs)"

definition combineRecord :: "ParsedRecord \<Rightarrow> ParsedRecord list \<times> string list \<Rightarrow> ParsedRecord list \<times> string list" where
  "combineRecord rec st =
     (let combined = fst st; seen = snd st in
      if hrpn rec \<in> set seen then
        (updateFirst (\<lambda>r. hrpn r = hrpn rec)
           (\<lambda>existing.
              let existing = existing\<lparr>rfields := spread (rfields existing) (rfields rec)\<rparr>
              in if length (name rec) > length (name existing)
                 then existing\<lparr>name := name rec\<rparr> else existing)
           combined, seen)
      else (combined @ [rec], seen @ [hrpn rec]))"

definition combineRecordSets :: "ParsedRecord list list \<Rightarrow> ParsedRecord list" where
  "combineRecordSets recordSets = fst (fold (\<lambda>recs st. fold combineRecord recs st) recordSets ([], []))"

subsection \<open>Module 8: validate results\<close>

definition hrpnPattern :: rx where
  "hrpnPattern = seqs [Bol, rep 8 digit, Eol]"

definition earningSum :: "fieldmap \<Rightarrow> number" where
  "earningSum e = foldl (\<lambda>sum kv. sum + snd kv) 0
     (filter (\<lambda>kv. fst kv \<noteq> ''gross'' \<and> fst kv \<noteq> ''slo'') e)"

definition validateRecord :: "PayrollRecord \<Rightarrow> RecordValidation" where
  "validateRecord record =
     (let warnings1 =
            (if gross record > 0 \<and> length (earning record) > 0 then
               (let grossDiff = \<bar>earningSum (earning record) - gross record\<bar> in
                if grossDiff > 1
                then [EarningSumMismatch (hrpn record) (earningSum (earning record)) (gross record)]
                else [])
             else []);
          errors1 =
            (if gross record > 0 \<and> totalDed record > 0 \<and> netPay record > 0 then
               (let computedNet = gross record - totalDed record;
                    netDiff = \<bar>computedNet - netPay record\<bar> in
                if netDiff > 1
                then [NetPayMismatch (hrpn record) computedNet (netPay record)]
                else [])
             else []);
          errors2 =
            (if hrpn record = [] \<or> \<not> rx_test False hrpnPattern (hrpn record)
             then errors1 @ [InvalidHrpn (hrpn record)] else errors1)
      in \<lparr> isValid = (errors2 = []), errors = errors2, warnings = warnings1 \<rparr>)"

text \<open>A JavaScript \<open>Set\<close> keeps the order in which its elements were first added.\<close>

definition addAll :: "string list \<Rightarrow> string list \<Rightarrow> string list" where
  "addAll ks added = fold (\<lambda>k f. if k \<in> set f then f else f @ [k]) ks added"

definition validateResults :: "PayrollRecord list \<Rightarrow> TotalRow option \<Rightarrow> TotalRow option \<Rightarrow> ValidationResult" where
  "validateResults rs earningTotalRow deductionTotalRow =
     (let results = map validateRecord rs;
          validCount = length (filter isValid results);
          allErrors = concat (map errors results);
          allWarnings = concat (map warnings results)
      in \<lparr> isValid = (allErrors = []),
           errors = allErrors,
           warnings = allWarnings,
           totalRecords = length rs,
           validRecords = validCount,
           summary = \<lparr>
             totalEmployees = length rs,
             totalGross = foldl (\<lambda>s r. s + gross r) 0 rs,
             totalDeductions = foldl (\<lambda>s r. s + totalDed r) 0 rs,
             totalNetPay = foldl (\<lambda>s r. s + netPay r) 0 rs,
             earningFieldsFound = fold (\<lambda>r added. addAll (map fst (earning r)) added) rs [],
             deductionFieldsFound = fold (\<lambda>r added. addAll (map fst (deduction r)) added) rs [] \<rparr> \<rparr>)"

subsection \<open>Main: one document, and the batch\<close>

text \<open>A call of the progress callback: step and detail\<close>

type_synonym Progress = "string \<times> string"

fun showNat :: "nat \<Rightarrow> string" where
  "showNat n = (if n < 10 then [''0123456789'' ! n]
                else showNat (n div 10) @ [''0123456789'' ! (n mod 10)])"

declare showNat.simps [simp del]

definition typeName :: "DocType \<Rightarrow> string" where
  "typeName t = (case t of Earning \<Rightarrow> ''earning'' | Deduction \<Rightarrow> ''deduction'')"

text \<open>\<open>err.message\<close>; the message of the \<open>TypeError\<close> is the engine's.\<close>

definition errorMessage :: "error \<Rightarrow> string" where
  "errorMessage e = (case e of
      CannotDetectType \<Rightarrow> ''Cannot detect PDF type: neither '' @ [CHR 0x22] @ ''Earning Side''
        @ [CHR 0x22] @ '' nor '' @ [CHR 0x22] @ ''Deduction Side'' @ [CHR 0x22] @ '' found.''
    | NoFirstPage \<Rightarrow> ''Cannot read properties of undefined (reading '' @ [CHR 0x27] @ ''lines''
        @ [CHR 0x27] @ '')'')"

definition buildRecord :: "NormalizedHeader list \<Rightarrow> DocType \<Rightarrow> EmployeeBlock \<Rightarrow> ParsedRecord" where
  "buildRecord nhs pdfType block =
     (let parsed = parseEmployeeBlock block pdfType
      in \<lparr> hrpn = hrpn parsed, name = name parsed, designation = designation parsed,
           rfields = normalizeFields (map canonical nhs) (values parsed),
           rawValues = values parsed \<rparr>)"

text \<open>The events reported, and the result or the exception thrown\<close>

definition parseSinglePDF :: "string \<Rightarrow> PdfItem list list \<Rightarrow> Progress list \<times> (error + SinglePdfResult)" where
  "parseSinglePDF fileName fileBuffer =
     (let extracted = extractText fileBuffer;
          log2 = [(''Extracting'', ''Reading text from '' @ fileName @ ''...''),
                  (''Detecting'', ''Detecting PDF type for '' @ fileName @ ''...'')]
      in case detectType (rawText extracted) of
           Inl e \<Rightarrow> (log2, Inl e)
         | Inr m \<Rightarrow>
            (let log3 = log2 @ [(''Headers'', ''Parsing headers ('' @ typeName (type m)
                                   @ '') from '' @ fileName @ ''...'')]
             in case pages extracted of
                  [] \<Rightarrow> (log3, Inl NoFirstPage)
                | firstPage # _ \<Rightarrow>
                   (let headerResult = parseHeadersSmart (lines firstPage) (type m);
                        nhs = map (\<lambda>h. \<lparr> raw = h, canonical = fst (normalizeHeader h),
                                          category = snd (normalizeHeader h) \<rparr>)
                                  (header_labels headerResult);
                        seg = segmentRows (pages extracted);
                        log5 = log3 @ [(''Segmenting'', ''Segmenting employee rows from ''
                                          @ fileName @ ''...''),
                                       (''Parsing'', ''Parsing '' @ showNat (length (employees seg))
                                          @ '' employee blocks from '' @ fileName @ ''...'')]
                    in (log5, Inr \<lparr> result_type = type m, meta = m,
                          records = map (buildRecord nhs (type m)) (employees seg),
                          totalRow = seg_totalRow seg,
                          headers = header_labels headerResult,
                          normalizedHeaders = nhs \<rparr>))))"

record InputFile =
  file_name :: string
  buffer :: "PdfItem list list"

record FileMeta =
  file_label :: string
  file_type :: DocType
  file_month :: "string option"
  file_billNo :: "string option"
  recordCount :: nat

text \<open>The variables of \<open>processPayrollFromFiles\<close> that the loop over the files updates, with
  the log of the progress callback\<close>

record Batch =
  earningRecords :: "ParsedRecord list list"
  deductionRecords :: "ParsedRecord list list"
  earningTotalRow :: "TotalRow option"
  deductionTotalRow :: "TotalRow option"
  allMetadata :: "FileMeta list"
  batch_month :: "string option"
  batch_billNo :: "string option"
  batch_office :: "string option"
  progress :: "Progress list"

text \<open>\<open>if (!a && b) a = b\<close> on values that are a string or \<open>null\<close>\<close>

definition firstTruthy :: "string option \<Rightarrow> string option \<Rightarrow> string option" where
  "firstTruthy a b =
     (if (a = None \<or> a = Some []) \<and> b \<noteq> None \<and> b \<noteq> Some [] then b else a)"

text \<open>One iteration of the loop over the files: the \<open>try\<close> block and its \<open>catch\<close>\<close>

definition processFile :: "InputFile \<Rightarrow> Batch \<Rightarrow> Batch" where
  "processFile f st =
     (let (events, outcome) = parseSinglePDF (file_name f) (buffer f);
          st = st\<lparr>progress := progress st
                 @ [(''Processing'', ''Processing '' @ file_name f @ ''...'')] @ events\<rparr>
      in case outcome of
           Inl err \<Rightarrow>
             st\<lparr>progress := progress st @ [(''Error'', ''Failed to parse '' @ file_name f @ '': ''
                                              @ errorMessage err)]\<rparr>
         | Inr result \<Rightarrow>
            (let st = st\<lparr>batch_month := firstTruthy (batch_month st) (month (meta result)),
                         batch_billNo := firstTruthy (batch_billNo st) (billNo (meta result)),
                         batch_office := firstTruthy (batch_office st) (office (meta result)),
                         allMetadata := allMetadata st @
                           [\<lparr> file_label = file_name f, file_type = result_type result,
                              file_month = month (meta result), file_billNo = billNo (meta result),
                              recordCount = length (records result) \<rparr>]\<rparr>
             in if result_type result = Earning then
                  st\<lparr>earningRecords := earningRecords st @ [records result],
                     earningTotalRow := (case totalRow result of
                         Some t \<Rightarrow> Some t | None \<Rightarrow> earningTotalRow st)\<rparr>
                else
                  st\<lparr>deductionRecords := deductionRecords st @ [records result],
                     deductionTotalRow := (case totalRow result of
                         Some t \<Rightarrow> Some t | None \<Rightarrow> deductionTotalRow st)\<rparr>))"

text \<open>The result without \<open>processedAt\<close>, the time of the call\<close>

record Metadata =
  md_month :: "string option"
  md_billNo :: "string option"
  md_office :: "string option"
  files :: "FileMeta list"
  md_totalEmployees :: nat

record ProcessPayrollResult =
  payroll :: "PayrollRecord list"
  validation :: ValidationResult
  metadata :: Metadata

definition emptyBatch :: Batch where
  "emptyBatch = \<lparr> earningRecords = [], deductionRecords = [], earningTotalRow = None,
     deductionTotalRow = None, allMetadata = [], batch_month = None, batch_billNo = None,
     batch_office = None, progress = [] \<rparr>"

text \<open>What follows the loop, on the state the loop leaves\<close>

definition finishBatch :: "Batch \<Rightarrow> ProcessPayrollResult \<times> Progress list" where
  "finishBatch st =
     (let combinedEarnings = (if length (earningRecords st) > 0
                              then combineRecordSets (earningRecords st) else []);
          combinedDeductions = (if length (deductionRecords st) > 0
                                then combineRecordSets (deductionRecords st) else []);
          merged = mergePayroll combinedEarnings combinedDeductions;
          v = validateResults merged (earningTotalRow st) (deductionTotalRow st)
      in (\<lparr> payroll = merged, validation = v,
            metadata = \<lparr> md_month = batch_month st, md_billNo = batch_billNo st,
                         md_office = batch_office st, files = allMetadata st,
                         md_totalEmployees = length merged \<rparr> \<rparr>,
          progress st @ [(''Merging'', ''Merging records by HRPN...''),
                         (''Validating'', ''Cross-validating results...''),
                         (''Complete'', ''Processed '' @ showNat (length merged)
                            @ '' employees successfully!'')]))"

text \<open>The result and the calls of the progress callback, in order\<close>

definition processPayrollFromFiles :: "InputFile list \<Rightarrow> ProcessPayrollResult \<times> Progress list" where
  "processPayrollFromFiles fs = finishBatch (fold processFile fs emptyBatch)"

subsection \<open>Vocabulary of the properties\<close>


text \<open>The same record without earning fields: check (a) does not apply to it.\<close>

definition noEarning :: "PayrollRecord \<Rightarrow> PayrollRecord" where
  "noEarning r = r\<lparr>earning := []\<rparr>"

text \<open>The invariant of \<open>payrollMap\<close>: keys are distinct, and every entry is stored under its own
  identifier.\<close>

definition mapInv :: "(string \<times> PayrollRecord) list \<Rightarrow> bool" where
  "mapInv pm = (distinct (map fst pm) \<and> (\<forall>kv \<in> set pm. hrpn (snd kv) = fst kv))"

text \<open>The shape both loop bodies of \<open>mergePayroll\<close> share\<close>

definition upsert :: "(ParsedRecord \<Rightarrow> PayrollRecord \<Rightarrow> PayrollRecord) \<Rightarrow> ParsedRecord \<Rightarrow> (string \<times> PayrollRecord) list \<Rightarrow> (string \<times> PayrollRecord) list" where
  "upsert g rec pm = AList.update (hrpn rec) (g rec (getEntry pm rec)) pm"

text \<open>The invariant of \<open>combineRecordSets\<close>: \<open>seen\<close> lists the identifiers of \<open>combined\<close>, without
  repetition.\<close>

definition combInv :: "ParsedRecord list \<times> string list \<Rightarrow> bool" where
  "combInv st = (snd st = map hrpn (fst st) \<and> distinct (snd st))"

text \<open>A positioned token: horizontal position, vertical position, text, width\<close>

type_synonym PositionedToken = "number \<times> number \<times> string \<times> number"

text \<open>The tokens of a page as the extractor delivers them\<close>

definition originalTokens :: "PdfItem list \<Rightarrow> PositionedToken list" where
  "originalTokens content =
     concat (map (\<lambda>item. case item of TextRun str tx ty w \<Rightarrow> [(tx, ty, str, w)]
                               | MarkedContent \<Rightarrow> []) content)"

text \<open>The tokens of a line of \<open>lineMap\<close>, and of a reconstructed line\<close>

definition entryTokens :: "int \<times> TextItem list \<Rightarrow> PositionedToken list" where
  "entryTokens e =
     map (\<lambda>it. (of_int (item_x it), of_int (fst e), item_text it, item_width it)) (snd e)"

definition lineTokens :: "TextLine \<Rightarrow> PositionedToken list" where
  "lineTokens l = entryTokens (line_y l, line_items l)"

text \<open>The tokens of all lines of a page, re-flattened\<close>

definition reflatten :: "TextLine list \<Rightarrow> PositionedToken list" where
  "reflatten ls = concat (map lineTokens ls)"

text \<open>The tokens the reconstructor keeps: those with a non-blank text, with the text trimmed
  and both coordinates rounded\<close>

definition keptTokens :: "PdfItem list \<Rightarrow> PositionedToken list" where
  "keptTokens content =
     map (\<lambda>(tx, ty, str, w). (of_int (round_js tx), of_int (round_js ty), trim str, w))
         (filter (\<lambda>(tx, ty, str, w). trim str \<noteq> []) (originalTokens content))"

text \<open>The tokens held by \<open>lineMap\<close>\<close>

definition mapTokens :: "(int \<times> TextItem list) list \<Rightarrow> PositionedToken multiset" where
  "mapTokens lineMap = sum_list (map (\<lambda>e. mset (entryTokens e)) lineMap)"

text \<open>
  The catalogue fields whose detector has a numeric field-code: document kind, label, the
  primary keyword patterns in the order the detector tries them, and the code pattern.
\<close>

definition codedFields :: "(DocType \<times> string \<times> RegExp list \<times> RegExp) list" where
  "codedFields =
   [ (Earning, ''DA (0103)'', [keyword ''DA''], code ''0103''),
     (Earning, ''HRA (0110)'', [keyword ''HRA''], code ''0110''),
     (Earning, ''CLA (0111)'', [keyword ''CLA''], code ''0111''),
     (Earning, ''Med Allow'', [keyword ''Med''], code ''0107''),
     (Earning, ''Trans Allow'', [keyword ''Trans''], code ''0113''),
     (Earning, ''Non Private Practice Allow'', [nonPrivateToken, keyword ''Practice''], code ''0128''),
     (Earning, ''Washing Allow'', [keyword ''Washing''], code ''0132''),
     (Earning, ''Nursing Allow'', [keyword ''Nursing''], code ''0129''),
     (Earning, ''Uniform Allow'', [keyword ''Uniform''], code ''0131''),
     (Earning, ''Book Allow'', [keyword ''Book''], code ''0104''),
     (Earning, ''ESIS Allow'', [keyword ''ESIS''], code ''0127''),
     (Deduction, ''Income Tax'', [keyword ''Income''], code ''9510''),
     (Deduction, ''Prof Tax'', [keyword ''Prof''], code ''9570''),
     (Deduction, ''R&B'', [keyword ''R&B''], code ''9550''),
     (Deduction, ''GPF Reg Class 4'', [keyword ''Class''], code ''9531''),
     (Deduction, ''GPF Reg'', [keyword ''GPF''], code ''9670''),
     (Deduction, ''NPS Reg'', [keyword ''NPS''], code ''9534''),
     (Deduction, ''Govt Fund'', [keyword ''Fund''], code ''9581''),
     (Deduction, ''Govt Saving'', [keyword ''Saving''], code ''9582'') ]"

text \<open>The primary keyword token of a pool: the first token matching the first primary
  pattern that matches any token\<close>

definition firstKeywordItem :: "HeaderItem list \<Rightarrow> RegExp list \<Rightarrow> HeaderItem option" where
  "firstKeywordItem its prims =
     (case List.map_filter (findItemByText its) prims of [] \<Rightarrow> None | p # _ \<Rightarrow> Some p)"

text \<open>The parses of the blocks of a document\<close>

definition parsedBlocks :: "DocType \<Rightarrow> PdfItem list list \<Rightarrow> ParsedEmployee list" where
  "parsedBlocks t doc =
     map (\<lambda>b. parseEmployeeBlock b t) (employees (segmentRows (pages (extractText doc))))"

text \<open>The record set of a document; empty when the document failed\<close>

definition recordsOf :: "error + SinglePdfResult \<Rightarrow> ParsedRecord list" where
  "recordsOf outcome = (case outcome of Inr res \<Rightarrow> records res | Inl e \<Rightarrow> [])"

text \<open>The loop state without the log of the progress callback\<close>

definition core :: "Batch \<Rightarrow> Batch" where
  "core st = st\<lparr>progress := []\<rparr>"

subsection \<open>Example inputs\<close>


definition mismatchRecord :: PayrollRecord where
  "mismatchRecord = \<lparr> hrpn = ''00125678'', name = ''A'', designation = [],
     earning = [(''basic'', 40000), (''da'', 5000), (''gross'', 50000), (''slo'', 7)],
     deduction = [(''incomeTax'', 5000)],
     gross = 50000, totalDed = 5000, netPay = 45000 \<rparr>"

definition earnA :: ParsedRecord where
  "earnA = \<lparr> hrpn = ''00125678'', name = ''Dr. A'', designation = ''Peon'',
     rfields = [(''basic'', 40000), (''da'', 10000), (''gross'', 50000)], rawValues = [40000, 10000, 50000] \<rparr>"

definition earnB :: ParsedRecord where
  "earnB = \<lparr> hrpn = ''00125670'', name = ''Dr. C'', designation = ''Peon'',
     rfields = [(''basic'', 30000), (''gross'', 30000)], rawValues = [30000, 30000] \<rparr>"

definition dedA :: ParsedRecord where
  "dedA = \<lparr> hrpn = ''00125678'', name = ''Dr. A B'', designation = [],
     rfields = [(''incomeTax'', 5000), (''totalDed'', 5000), (''netPay'', 45000)], rawValues = [5000, 5000, 45000] \<rparr>"

definition nurse1 :: ParsedRecord where
  "nurse1 = \<lparr> hrpn = ''00125678'', name = ''A'', designation = [],
     rfields = [(''basic'', 1)], rawValues = [1] \<rparr>"

definition nurse2 :: ParsedRecord where
  "nurse2 = \<lparr> hrpn = ''00125678'', name = ''A'', designation = ''Staff Nurse'',
     rfields = [(''da'', 2)], rawValues = [2] \<rparr>"

definition noValuesDoc :: "PdfItem list list" where
  "noValuesDoc = [[TextRun ''Earning Side'' 10 800 60, TextRun ''1 00125678 Driver'' 10 700 80]]"

definition titleLine :: TextLine where
  "titleLine = \<lparr> line_y = 800,
     line_items = [\<lparr> item_x = 10, item_text = ''Earning Side'', item_width = 60 \<rparr>],
     line_text = ''Earning Side'' \<rparr>"

definition driverLine :: TextLine where
  "driverLine = \<lparr> line_y = 700,
     line_items = [\<lparr> item_x = 10, item_text = ''1 00125678 Driver'', item_width = 80 \<rparr>],
     line_text = ''1 00125678 Driver'' \<rparr>"

definition noValuesPage :: PageData where
  "noValuesPage = \<lparr> pageNum = 1, lines = [titleLine, driverLine] \<rparr>"

definition noValuesExtracted :: ExtractedText where
  "noValuesExtracted = \<lparr> pages = [noValuesPage],
     rawText = ''Earning Side'' @ [CHR 0x0A] @ ''1 00125678 Driver'',
     fullLines = [''Earning Side'', ''1 00125678 Driver''] \<rparr>"

definition noValuesBlock :: EmployeeBlock where
  "noValuesBlock = \<lparr> hrpn = ''00125678'', srNo = 1, rawLines = [driverLine],
     dataLine = driverLine, page = 1 \<rparr>"

definition noValuesParsed :: ParsedEmployee where
  "noValuesParsed = \<lparr> hrpn = ''00125678'', name = [], designation = [], emp_srNo = 1,
     values = [] \<rparr>"

definition noValuesMeta :: PdfMeta where
  "noValuesMeta = \<lparr> type = Earning, month = None, billNo = None, office = None \<rparr>"

definition noValuesResult :: SinglePdfResult where
  "noValuesResult = \<lparr> result_type = Earning, meta = noValuesMeta,
     records = [\<lparr> hrpn = ''00125678'', name = [], designation = [], rfields = [],
                  rawValues = [] \<rparr>],
     totalRow = None, headers = [], normalizedHeaders = [] \<rparr>"

definition noValuesFile :: InputFile where
  "noValuesFile = \<lparr> file_name = ''e.pdf'', buffer = noValuesDoc \<rparr>"

definition unknownFile :: InputFile where
  "unknownFile = \<lparr> file_name = ''x.pdf'', buffer = [[TextRun ''Leave register'' 10 800 60]] \<rparr>"

definition mkLine :: "int \<Rightarrow> string \<Rightarrow> TextLine" where
  "mkLine v s = \<lparr> line_y = v,
     line_items = [\<lparr> item_x = 10, item_text = s, item_width = 50 \<rparr>], line_text = s \<rparr>"

definition twoAnchorPage :: PageData where
  "twoAnchorPage = \<lparr> pageNum = 1, lines =
     [ mkLine 710 ''Dr. A'', mkLine 700 ''1 00000001 x'', mkLine 690 ''B'',
       mkLine 680 ''Mr. C'', mkLine 670 ''2 00000002 y'', mkLine 660 ''D'' ] \<rparr>"

definition daPool :: "HeaderItem list" where
  "daPool = [ \<lparr> h_x = 200, h_text = ''0103'', h_y = 770, h_width = 15 \<rparr>,
              \<lparr> h_x = 205, h_text = ''DA'', h_y = 780, h_width = 10 \<rparr> ]"

section \<open>Properties\<close>

subsection \<open>Document classifier\<close>

lemma str_includes_sublist: "str_includes s w \<longleftrightarrow> sublist w s"
  by (induction s) (auto simp: sublist_Cons_right)

text \<open>
  C10. A text containing the earning-side marker (in any letter case) is classified as an
  earning document, whether or not it also contains the deduction-side marker:
  classification neither fails nor depends on the second marker.
\<close>

theorem detectType_earning_precedence:
  assumes "str_includes (toLowerCase t) ''earning side''"
  shows "\<exists>m. detectType t = Inr m \<and> type m = Earning"
  using assms by (simp add: detectType_def Let_def)

theorem detectType_earning_precedence_witness:
  "str_includes (toLowerCase ''Deduction Side / EARNING SIDE'') ''earning side''
   \<and> str_includes (toLowerCase ''Deduction Side / EARNING SIDE'') ''deduction side''
   \<and> (\<exists>m. detectType ''Deduction Side / EARNING SIDE'' = Inr m \<and> type m = Earning)"
proof -
  have h: "str_includes (toLowerCase ''Deduction Side / EARNING SIDE'') ''earning side''"
    by code_simp
  have d: "str_includes (toLowerCase ''Deduction Side / EARNING SIDE'') ''deduction side''"
    by code_simp
  from detectType_earning_precedence[OF h] h d show ?thesis
    by blast
qed

subsection \<open>Cross-validator\<close>



lemma validateRecord_errors_noEarning:
  "errors (validateRecord (noEarning r)) = errors (validateRecord r)"
  by (simp add: validateRecord_def Let_def noEarning_def)

lemma validateRecord_isValid: "isValid (validateRecord r) = (errors (validateRecord r) = [])"
  by (simp add: validateRecord_def Let_def)

lemma validateResults_isValid:
  "isValid (validateResults rs a b) = (\<forall>r\<in>set rs. errors (validateRecord r) = [])"
  by (simp add: validateResults_def Let_def)

lemma validateResults_validRecords:
  "validRecords (validateResults rs a b) =
     length (filter (\<lambda>r. errors (validateRecord r) = []) rs)"
  by (simp add: validateResults_def Let_def filter_map o_def validateRecord_isValid)

text \<open>
  C9. A record of a batch with positive gross and a non-empty earning map, whose earning
  sum (without \<open>gross\<close> and \<open>slo\<close>) differs from gross by more than 1, gets exactly one
  warning, which reaches the batch result; its errors and its validity are those of the
  same record without earning fields, and so are the valid-record count and the validity
  flag of the batch: the mismatch is never an error.
\<close>

theorem earning_sum_mismatch_is_warning:
  assumes "r \<in> set rs" and "gross r > 0" and "earning r \<noteq> []"
    and "\<bar>earningSum (earning r) - gross r\<bar> > 1"
  shows "warnings (validateRecord r) =
           [EarningSumMismatch (hrpn r) (earningSum (earning r)) (gross r)]
    \<and> EarningSumMismatch (hrpn r) (earningSum (earning r)) (gross r)
         \<in> set (warnings (validateResults rs a b))
    \<and> errors (validateRecord r) = errors (validateRecord (noEarning r))
    \<and> isValid (validateRecord r) = isValid (validateRecord (noEarning r))
    \<and> validRecords (validateResults rs a b) = validRecords (validateResults (map noEarning rs) a b)
    \<and> isValid (validateResults rs a b) = isValid (validateResults (map noEarning rs) a b)"
proof -
  have w: "warnings (validateRecord r) =
      [EarningSumMismatch (hrpn r) (earningSum (earning r)) (gross r)]"
    using assms by (simp add: validateRecord_def Let_def)
  have "EarningSumMismatch (hrpn r) (earningSum (earning r)) (gross r)
      \<in> set (warnings (validateResults rs a b))"
    using w assms(1) by (auto simp: validateResults_def Let_def intro!: bexI[of _ r])
  moreover have "validRecords (validateResults rs a b) =
      validRecords (validateResults (map noEarning rs) a b)"
    by (simp add: validateResults_validRecords filter_map o_def validateRecord_errors_noEarning)
  moreover have "isValid (validateResults rs a b) =
      isValid (validateResults (map noEarning rs) a b)"
    by (simp add: validateResults_isValid validateRecord_errors_noEarning)
  ultimately show ?thesis
    using w by (simp add: validateRecord_errors_noEarning validateRecord_isValid)
qed

theorem earning_sum_mismatch_is_warning_witness:
  "mismatchRecord \<in> set [mismatchRecord, mismatchRecord] \<and> gross mismatchRecord > 0
   \<and> earning mismatchRecord \<noteq> []
   \<and> \<bar>earningSum (earning mismatchRecord) - gross mismatchRecord\<bar> > 1
   \<and> warnings (validateRecord mismatchRecord) = [EarningSumMismatch ''00125678'' 45000 50000]
   \<and> errors (validateRecord mismatchRecord) = []
   \<and> isValid (validateRecord mismatchRecord)
   \<and> validRecords (validateResults [mismatchRecord, mismatchRecord] None None) = 2
   \<and> isValid (validateResults [mismatchRecord, mismatchRecord] None None)"
proof -
  have h: "mismatchRecord \<in> set [mismatchRecord, mismatchRecord]" "gross mismatchRecord > 0"
    "earning mismatchRecord \<noteq> []"
    "\<bar>earningSum (earning mismatchRecord) - gross mismatchRecord\<bar> > 1"
    by (simp_all add: mismatchRecord_def earningSum_def)
  have s: "earningSum (earning mismatchRecord) = 45000" "hrpn mismatchRecord = ''00125678''"
    "gross mismatchRecord = 50000"
    by (simp_all add: mismatchRecord_def earningSum_def)
  have e: "errors (validateRecord (noEarning mismatchRecord)) = []"
    "isValid (validateRecord (noEarning mismatchRecord))"
    "validRecords (validateResults (map noEarning [mismatchRecord, mismatchRecord]) None None) = 2"
    "isValid (validateResults (map noEarning [mismatchRecord, mismatchRecord]) None None)"
    by code_simp+
  from earning_sum_mismatch_is_warning[OF h, of None None] h s e show ?thesis
    by simp
qed

subsection \<open>Cross-document merger\<close>

lemma map_of_spread_rev: "map_of (spread a b) = map_of a ++ map_of (rev b)"
  unfolding spread_def
proof (induction b arbitrary: a)
  case Nil
  show ?case by simp
next
  case (Cons kv b)
  have "map_of a ++ map_of (rev (kv # b)) = (map_of a ++ [fst kv \<mapsto> snd kv]) ++ map_of (rev b)"
    by (cases kv) simp
  also have "map_of a ++ [fst kv \<mapsto> snd kv] = (map_of a)(fst kv \<mapsto> snd kv)"
    by simp
  finally show ?case
    by (simp add: Cons.IH update_conv')
qed

lemma map_of_spread:
  assumes "distinct (map fst b)"
  shows "map_of (spread a b) = map_of a ++ map_of b"
proof -
  have "map_of (rev b) = map_of b"
    using assms by (intro map_of_inject_set[THEN iffD2]) (simp_all add: distinct_rev rev_map[symmetric])
  then show ?thesis by (simp add: map_of_spread_rev)
qed

lemma mergeEarning_upsert: "mergeEarning = upsert earningEntry"
  by (intro ext) (simp add: mergeEarning_def upsert_def)

lemma mergeDeduction_upsert: "mergeDeduction = upsert deductionEntry"
  by (intro ext) (simp add: mergeDeduction_def upsert_def)

lemma hrpn_longestNames: "hrpn (longestNames rec entry) = hrpn entry"
  by (simp add: longestNames_def Let_def)

lemma hrpn_earningEntry: "hrpn (earningEntry rec entry) = hrpn entry"
  by (simp add: earningEntry_def Let_def hrpn_longestNames split: option.splits)

lemma hrpn_deductionEntry: "hrpn (deductionEntry rec entry) = hrpn entry"
  by (simp add: deductionEntry_def Let_def hrpn_longestNames split: option.splits)

lemma hrpn_getEntry: "mapInv pm \<Longrightarrow> hrpn (getEntry pm rec) = hrpn rec"
  by (auto simp: getEntry_def newEntry_def mapInv_def split: option.splits dest!: map_of_SomeD)

lemma set_update_subset: "set (AList.update k v al) \<subseteq> insert (k, v) (set al)"
  by (induction al) auto

lemma mapInv_upsert:
  assumes "mapInv pm" and "\<And>rec entry. hrpn (g rec entry) = hrpn entry"
  shows "mapInv (upsert g rec pm)"
proof -
  have "hrpn (g rec (getEntry pm rec)) = hrpn rec"
    using assms by (simp add: hrpn_getEntry)
  then show ?thesis
    using assms(1) set_update_subset[of "hrpn rec" "g rec (getEntry pm rec)" pm]
    unfolding mapInv_def upsert_def by (auto simp: distinct_update)
qed

lemma mapInv_fold_upsert:
  assumes "mapInv pm" and "\<And>rec entry. hrpn (g rec entry) = hrpn entry"
  shows "mapInv (fold (upsert g) rs pm)"
  using assms(1) by (induction rs arbitrary: pm) (simp_all add: mapInv_upsert assms(2))

lemma map_of_upsert:
  "map_of (upsert g rec pm) h =
     (if h = hrpn rec then Some (g rec (getEntry pm rec)) else map_of pm h)"
  by (simp add: upsert_def update_conv')

lemma getEntry_upsert_other:
  "hrpn x \<noteq> hrpn rec \<Longrightarrow> getEntry (upsert g x pm) rec = getEntry pm rec"
  by (simp add: getEntry_def map_of_upsert)

lemma map_of_fold_upsert_other:
  "h \<notin> hrpn ` set rs \<Longrightarrow> map_of (fold (upsert g) rs pm) h = map_of pm h"
  by (induction rs arbitrary: pm) (auto simp: map_of_upsert)

lemma map_of_fold_upsert:
  assumes "distinct (map hrpn rs)" and "rec \<in> set rs"
  shows "map_of (fold (upsert g) rs pm) (hrpn rec) = Some (g rec (getEntry pm rec))"
  using assms
proof (induction rs arbitrary: pm)
  case Nil
  then show ?case by simp
next
  case (Cons x rs)
  show ?case
  proof (cases "x = rec")
    case True
    with Cons.prems have "hrpn rec \<notin> hrpn ` set rs" by auto
    then show ?thesis
      using True by (simp add: map_of_fold_upsert_other map_of_upsert)
  next
    case False
    with Cons.prems have in_rs: "rec \<in> set rs" and ne: "hrpn x \<noteq> hrpn rec"
      by auto
    from Cons.prems have "distinct (map hrpn rs)" by simp
    from Cons.IH[OF this in_rs, of "upsert g x pm"] ne show ?thesis
      by (simp add: getEntry_upsert_other)
  qed
qed

lemma filter_key_distinct:
  "distinct (map fst al) \<Longrightarrow> map_of al k = Some v \<Longrightarrow> filter (\<lambda>kv. fst kv = k) al = [(k, v)]"
proof (induction al)
  case Nil
  then show ?case by simp
next
  case (Cons a al)
  show ?case
  proof (cases "fst a = k")
    case True
    with Cons.prems have "a = (k, v)" by (cases a) simp
    moreover from True Cons.prems have "\<forall>kv\<in>set al. fst kv \<noteq> k"
      by (auto simp: image_iff)
    then have "filter (\<lambda>kv. fst kv = k) al = []"
      by (simp add: filter_empty_conv)
    ultimately show ?thesis by simp
  next
    case False
    with Cons show ?thesis by (cases a) auto
  qed
qed

lemma mapInv_values_filter:
  assumes "mapInv pm" and "map_of pm h = Some r"
  shows "filter (\<lambda>r. hrpn r = h) (map snd pm) = [r]"
proof -
  have "filter (\<lambda>r. hrpn r = h) (map snd pm) = map snd (filter (\<lambda>kv. fst kv = h) pm)"
    using assms(1) by (auto simp: filter_map o_def mapInv_def intro!: arg_cong[where f="map snd"] filter_cong)
  also have "\<dots> = [r]"
    using assms by (simp add: filter_key_distinct mapInv_def)
  finally show ?thesis .
qed

text \<open>
  C1. Let the earning records and the deduction records each have pairwise distinct
  identifiers (what \<open>combineRecordSets\<close> hands to the merge step, see
  \<open>combineRecordSets_distinct\<close>), and let an earning record with \<open>gross\<close> 50000 and a
  deduction record with \<open>totalDed\<close> 5000 and \<open>netPay\<close> 45000 share the identifier \<open>h\<close>; the
  field maps are objects, so their keys are distinct. Then the output has exactly one
  record with identifier \<open>h\<close>; its gross is 50000, its totalDed 5000, its netPay 45000, its
  earning map is the earning fields, its deduction map is the deduction fields without
  the keys \<open>totalDed\<close> and \<open>netPay\<close>; and the output is sorted ascending by identifier.
\<close>

theorem mergePayroll_both_sides:
  assumes "e \<in> set es" and "d \<in> set ds" and "hrpn e = h" and "hrpn d = h"
    and "distinct (map hrpn es)" and "distinct (map hrpn ds)"
    and "distinct (map fst (rfields e))" and "distinct (map fst (rfields d))"
    and "map_of (rfields e) ''gross'' = Some 50000"
    and "map_of (rfields d) ''totalDed'' = Some 5000"
    and "map_of (rfields d) ''netPay'' = Some 45000"
  shows "\<exists>r. filter (\<lambda>r. hrpn r = h) (mergePayroll es ds) = [r]
      \<and> gross r = 50000 \<and> totalDed r = 5000 \<and> netPay r = 45000
      \<and> map_of (earning r) = map_of (rfields e)
      \<and> map_of (deduction r) = map_of (rfields d) |` (- {''totalDed'', ''netPay''})
      \<and> sorted (map hrpn (mergePayroll es ds))"
proof -
  define pm1 where "pm1 = fold (upsert earningEntry) es []"
  define pm2 where "pm2 = fold (upsert deductionEntry) ds pm1"
  define r1 where "r1 = earningEntry e (newEntry e)"
  define r where "r = deductionEntry d r1"
  have out: "mergePayroll es ds = sort_key hrpn (map snd pm2)"
    by (simp add: mergePayroll_def Let_def pm1_def pm2_def mergeEarning_upsert mergeDeduction_upsert)
  have inv0: "mapInv []" by (simp add: mapInv_def)
  have inv1: "mapInv pm1"
    unfolding pm1_def by (rule mapInv_fold_upsert[OF inv0 hrpn_earningEntry])
  have inv2: "mapInv pm2"
    unfolding pm2_def by (rule mapInv_fold_upsert[OF inv1 hrpn_deductionEntry])
  have "map_of pm1 (hrpn e) = Some (earningEntry e (getEntry [] e))"
    unfolding pm1_def by (rule map_of_fold_upsert[OF assms(5) assms(1)])
  then have m1: "map_of pm1 h = Some r1"
    using assms(3) by (simp add: r1_def getEntry_def)
  have "map_of pm2 (hrpn d) = Some (deductionEntry d (getEntry pm1 d))"
    unfolding pm2_def by (rule map_of_fold_upsert[OF assms(6) assms(2)])
  then have m2: "map_of pm2 h = Some r"
    using assms(4) m1 by (simp add: r_def getEntry_def)
  have one: "filter (\<lambda>r. hrpn r = h) (mergePayroll es ds) = [r]"
    unfolding out by (simp add: filter_sort mapInv_values_filter[OF inv2 m2])
  have r1_earning: "map_of (earning r1) = map_of (rfields e)" and r1_gross: "gross r1 = 50000"
    and r1_ded: "deduction r1 = []"
    using assms(7,9)
    by (simp_all add: r1_def earningEntry_def longestNames_def newEntry_def Let_def map_of_spread)
  have "distinct (map fst (AList.delete ''netPay'' (AList.delete ''totalDed'' (rfields d))))"
    using assms(8) by (simp add: distinct_delete)
  then have r_ded: "map_of (deduction r) = map_of (rfields d) |` (- {''totalDed'', ''netPay''})"
    and r_sum: "gross r = 50000" "totalDed r = 5000" "netPay r = 45000"
    and r_earning: "map_of (earning r) = map_of (rfields e)"
    using assms(10,11) r1_earning r1_gross r1_ded
    by (auto simp: r_def deductionEntry_def longestNames_def Let_def map_of_spread delete_conv'
        restrict_map_def fun_eq_iff)
  have "sorted (map hrpn (mergePayroll es ds))"
    unfolding out by (rule sorted_sort_key)
  with one r_ded r_sum r_earning show ?thesis
    by blast
qed

theorem mergePayroll_both_sides_witness:
  "earnA \<in> set [earnA, earnB] \<and> dedA \<in> set [dedA] \<and> hrpn earnA = ''00125678'' \<and> hrpn dedA = ''00125678''
   \<and> distinct (map hrpn [earnA, earnB]) \<and> distinct (map hrpn [dedA])
   \<and> distinct (map fst (rfields earnA)) \<and> distinct (map fst (rfields dedA))
   \<and> map_of (rfields earnA) ''gross'' = Some 50000
   \<and> map_of (rfields dedA) ''totalDed'' = Some 5000
   \<and> map_of (rfields dedA) ''netPay'' = Some 45000
   \<and> (\<exists>r. filter (\<lambda>r. hrpn r = ''00125678'') (mergePayroll [earnA, earnB] [dedA]) = [r]
      \<and> gross r = 50000 \<and> totalDed r = 5000 \<and> netPay r = 45000
      \<and> map_of (earning r) = map_of (rfields earnA)
      \<and> map_of (deduction r) = map_of (rfields dedA) |` (- {''totalDed'', ''netPay''})
      \<and> sorted (map hrpn (mergePayroll [earnA, earnB] [dedA])))"
proof -
  have h: "earnA \<in> set [earnA, earnB]" "dedA \<in> set [dedA]" "hrpn earnA = ''00125678''"
    "hrpn dedA = ''00125678''" "distinct (map hrpn [earnA, earnB])" "distinct (map hrpn [dedA])"
    "distinct (map fst (rfields earnA))" "distinct (map fst (rfields dedA))"
    "map_of (rfields earnA) ''gross'' = Some 50000"
    "map_of (rfields dedA) ''totalDed'' = Some 5000"
    "map_of (rfields dedA) ''netPay'' = Some 45000"
    by (simp_all add: earnA_def earnB_def dedA_def)
  from mergePayroll_both_sides[OF h] h show ?thesis
    by blast
qed

text \<open>
  C6. Two record sets of the same kind hold the same identifier, the first record with an
  empty designation and the second with \<open>Staff Nurse\<close>. \<open>combineRecordSets\<close> unions the
  fields, but the combined record keeps the empty designation of the first record:
  only the name is compared by length. \<open>mergePayroll\<close>, on the same two records, keeps
  the longer designation.
\<close>

theorem combineRecordSets_drops_designation:
  "map designation (combineRecordSets [[nurse1], [nurse2]]) = [[]]
   \<and> map rfields (combineRecordSets [[nurse1], [nurse2]]) = [[(''basic'', 1), (''da'', 2)]]
   \<and> map designation (mergePayroll [nurse1, nurse2] []) = [''Staff Nurse'']"
  by code_simp

lemma map_hrpn_updateFirst:
  "(\<And>r. hrpn (f r) = hrpn r) \<Longrightarrow> map hrpn (updateFirst P f rs) = map hrpn rs"
  by (induction rs) auto

lemma combineRecord_inv: "combInv st \<Longrightarrow> combInv (combineRecord rec st)"
  by (auto simp: combInv_def combineRecord_def Let_def map_hrpn_updateFirst)

lemma fold_combineRecord_inv: "combInv st \<Longrightarrow> combInv (fold combineRecord rs st)"
  by (induction rs arbitrary: st) (simp_all add: combineRecord_inv)

lemma combineRecordSets_distinct: "distinct (map hrpn (combineRecordSets recordSets))"
proof -
  have "combInv (fold (\<lambda>recs st. fold combineRecord recs st) rss st)" if "combInv st" for rss st
    using that by (induction rss arbitrary: st) (simp_all add: fold_combineRecord_inv)
  moreover have "combInv ([], [])"
    by (simp add: combInv_def)
  ultimately have "combInv (fold (\<lambda>recs st. fold combineRecord recs st) recordSets ([], []))"
    by blast
  then show ?thesis
    unfolding combineRecordSets_def combInv_def by metis
qed

subsection \<open>Line reconstructor\<close>

lemma mset_lineTokens_makeLine: "mset (lineTokens (makeLine e)) = mset (entryTokens e)"
proof -
  have "mset (map g (sort_key item_x its)) = mset (map g its)" for g :: "TextItem \<Rightarrow> PositionedToken" and its
    by simp
  then show ?thesis
    by (simp add: lineTokens_def makeLine_def Let_def entryTokens_def del: mset_map)
qed

lemma mset_reflatten_sorted:
  "mset (reflatten (map makeLine (sort_key f lineMap))) = mapTokens lineMap"
proof -
  have "mset (reflatten (map makeLine (sort_key f lineMap))) =
      sum_list (map (\<lambda>e. mset (entryTokens e)) (sort_key f lineMap))"
    by (simp add: reflatten_def mset_concat o_def mset_lineTokens_makeLine)
  also have "\<dots> = sum_mset (image_mset (\<lambda>e. mset (entryTokens e)) (mset (sort_key f lineMap)))"
    by (simp add: sum_mset_sum_list[symmetric] del: mset_sort)
  also have "\<dots> = mapTokens lineMap"
    by (simp add: mapTokens_def sum_mset_sum_list[symmetric])
  finally show ?thesis .
qed

lemma mapTokens_append: "mapTokens (a @ b) = mapTokens a + mapTokens b"
  by (simp add: mapTokens_def)

lemma mapTokens_update:
  "map_of lineMap y = Some its \<Longrightarrow>
   mapTokens (AList.update y (its @ [new]) lineMap) = mapTokens lineMap + mset (entryTokens (y, [new]))"
proof (induction lineMap)
  case Nil
  then show ?case by simp
next
  case (Cons e lineMap)
  then show ?case
    by (cases e) (auto simp: mapTokens_def entryTokens_def)
qed

lemma mapTokens_addItem:
  "mapTokens (addItem item lineMap) = mapTokens lineMap + mset (keptTokens [item])"
proof (cases item)
  case MarkedContent
  then show ?thesis
    by (simp add: addItem_def keptTokens_def originalTokens_def)
next
  case (TextRun str tx ty w)
  show ?thesis
  proof (cases "trim str = []")
    case True
    with TextRun show ?thesis
      by (simp add: addItem_def keptTokens_def originalTokens_def)
  next
    case False
    with TextRun show ?thesis
      by (auto simp: addItem_def keptTokens_def originalTokens_def Let_def mapTokens_append
          mapTokens_update split: option.splits)
         (simp_all add: mapTokens_def entryTokens_def)
  qed
qed

lemma keptTokens_Cons: "keptTokens (item # content) = keptTokens [item] @ keptTokens content"
  by (simp add: keptTokens_def originalTokens_def)

lemma mapTokens_fold_addItem:
  "mapTokens (fold addItem content lineMap) = mapTokens lineMap + mset (keptTokens content)"
proof (induction content arbitrary: lineMap)
  case Nil
  show ?case by (simp add: keptTokens_def originalTokens_def)
next
  case (Cons item content)
  show ?case
    by (simp add: Cons.IH mapTokens_addItem keptTokens_Cons[of item content])
qed

lemma addItem_distinct: "distinct (map fst lineMap) \<Longrightarrow> distinct (map fst (addItem item lineMap))"
  by (cases item)
     (auto simp: addItem_def Let_def distinct_update map_of_eq_None_iff split: option.splits)

lemma fold_addItem_distinct:
  "distinct (map fst lineMap) \<Longrightarrow> distinct (map fst (fold addItem content lineMap))"
  by (induction content arbitrary: lineMap) (simp_all add: addItem_distinct)

lemma extractPage_distinct: "distinct (map line_y (extractPage content))"
proof -
  have "distinct (map fst (fold addItem content []))"
    by (rule fold_addItem_distinct) simp
  then have "distinct (map fst (sort_key (\<lambda>e. - fst e) (fold addItem content [])))"
    by (simp add: distinct_map)
  moreover have "map line_y (map makeLine es) = map fst es" for es
    by (simp add: makeLine_def Let_def)
  ultimately show ?thesis
    by (simp add: extractPage_def Let_def del: map_map)
qed

text \<open>
  C4 (amended). Re-flattening the lines reconstructed from a page yields exactly the
  multiset of the page's text tokens with a non-blank text, each with its text trimmed and
  its coordinates rounded to integers: none of these is lost and none duplicated.
\<close>

theorem extractPage_token_multiset:
  "mset (reflatten (extractPage content)) = mset (keptTokens content)"
proof -
  have "mset (reflatten (extractPage content)) = mapTokens (fold addItem content [])"
    by (simp add: extractPage_def Let_def mset_reflatten_sorted)
  also have "\<dots> = mapTokens [] + mset (keptTokens content)"
    by (rule mapTokens_fold_addItem)
  finally show ?thesis
    by (simp add: mapTokens_def)
qed

text \<open>
  C4 as stated fails: a page with one token whose text is a blank is reconstructed into
  no line, so the token is lost.
\<close>

theorem extractPage_drops_blank_token:
  "mset (reflatten (extractPage [TextRun '' '' 10 700 3])) \<noteq> mset (originalTokens [TextRun '' '' 10 700 3])"
  by code_simp

subsection \<open>Schema detector\<close>

lemma rxm_lit: "rxm False (lit w) (p, s, gs) \<noteq> [] \<longleftrightarrow> prefix w s"
proof (induction w arbitrary: p s)
  case Nil
  show ?case by (simp add: lit_def seqs_def)
next
  case (Cons c w)
  have IH: "rxm False (foldr Seq (map Chr w) Eps) (q, t, gs) \<noteq> [] \<longleftrightarrow> prefix w t" for q t
    using Cons.IH[of q t] by (simp add: lit_def seqs_def)
  show ?case
    by (cases s) (auto simp: lit_def seqs_def IH)
qed

lemma rx_find_lit: "rx_find False (lit w) p s \<noteq> None \<longleftrightarrow> sublist w s"
proof (induction s arbitrary: p)
  case Nil
  have "rxm False (lit w) (p, [], []) \<noteq> [] \<longleftrightarrow> w = []"
    by (simp add: rxm_lit)
  then show ?case
    by (auto split: list.splits)
next
  case (Cons c s)
  have "rxm False (lit w) (p, c # s, []) \<noteq> [] \<longleftrightarrow> prefix w (c # s)"
    by (rule rxm_lit)
  with Cons.IH[of "Some c"] show ?case
    by (auto simp: sublist_Cons_right split: list.splits)
qed

lemma test_code: "test (code w) s \<longleftrightarrow> sublist w s"
  by (simp only: test_def code_def rx_test_def fst_conv snd_conv rx_find_lit)

lemma sublist_join: "t \<in> set ts \<Longrightarrow> sublist t (join sep ts)"
proof (induction sep ts rule: join.induct)
  case (3 sep s t' ss)
  show ?case
  proof (cases "t = s")
    case True
    then show ?thesis by simp
  next
    case False
    with 3 have "sublist t (join sep (t' # ss))" by simp
    also have "sublist (join sep (t' # ss)) (s @ sep @ join sep (t' # ss))"
      using sublist_append_leftI[of "join sep (t' # ss)" "s @ sep"] by simp
    finally show ?thesis by simp
  qed
qed auto

lemma findItemByText_Some:
  "findItemByText its pat = Some p \<Longrightarrow> p \<in> set its \<and> test pat (h_text p)"
  by (auto simp: findItemByText_def find_Some_iff)

lemma test_code_join:
  assumes "findItemByText its (code w) = Some c"
  shows "test (code w) (join sep (map h_text its))"
proof -
  from findItemByText_Some[OF assms] have "h_text c \<in> set (map h_text its)" "sublist w (h_text c)"
    by (simp_all add: test_code)
  then show ?thesis
    using sublist_join[of "h_text c" "map h_text its" sep] sublist_order.order_trans
    by (auto simp: test_code)
qed

lemma findByKeyword_primary:
  "findItemByText its prim = Some p \<Longrightarrow> findByKeyword its prim cd = \<lparr> found = True, at_x = h_x p \<rparr>"
  by (simp add: findByKeyword_def)

lemma guardedDetector_primary:
  assumes "findItemByText its w = Some p" and "findItemByText its (code cd) = Some c"
  shows "guardedDetector ph cd w its (join '' '' (map h_text its)) = \<lparr> found = True, at_x = h_x p \<rparr>"
  using assms test_code_join[OF assms(2), of "'' ''"] by (simp add: guardedDetector_def)

lemma firstKeywordItem_single [simp]:
  "firstKeywordItem its [prim] = findItemByText its prim"
  by (simp add: firstKeywordItem_def List.map_filter_simps split: option.splits)

lemma firstKeywordItem_two:
  "firstKeywordItem its [a, b] =
     (case findItemByText its a of Some p \<Rightarrow> Some p | None \<Rightarrow> findItemByText its b)"
  by (simp add: firstKeywordItem_def List.map_filter_simps split: option.splits)

lemma earning_labels_distinct: "distinct (map fst getEarningDetectors)"
  by (simp add: getEarningDetectors_def)

lemma deduction_labels_distinct: "distinct (map fst getDeductionDetectors)"
  by (simp add: getDeductionDetectors_def)

lemma earning_lookup:
  "map_of getEarningDetectors ''DA (0103)'' = Some (\<lambda>its text. findByKeyword its (keyword ''DA'') (Some (code ''0103'')))"
  "map_of getEarningDetectors ''HRA (0110)'' = Some (\<lambda>its text. findByKeyword its (keyword ''HRA'') (Some (code ''0110'')))"
  "map_of getEarningDetectors ''CLA (0111)'' = Some (\<lambda>its text. findByKeyword its (keyword ''CLA'') (Some (code ''0111'')))"
  "map_of getEarningDetectors ''Med Allow'' = Some (\<lambda>its text. findByKeyword its (keyword ''Med'') (Some (code ''0107'')))"
  "map_of getEarningDetectors ''Trans Allow'' = Some (\<lambda>its text. findByKeyword its (keyword ''Trans'') (Some (code ''0113'')))"
  "map_of getEarningDetectors ''Non Private Practice Allow'' = Some nonPrivatePracticeDetector"
  "map_of getEarningDetectors ''Washing Allow'' = Some (\<lambda>its text. findByKeyword its (keyword ''Washing'') (Some (code ''0132'')))"
  "map_of getEarningDetectors ''Nursing Allow'' = Some (\<lambda>its text. findByKeyword its (keyword ''Nursing'') (Some (code ''0129'')))"
  "map_of getEarningDetectors ''Uniform Allow'' = Some (\<lambda>its text. findByKeyword its (keyword ''Uniform'') (Some (code ''0131'')))"
  "map_of getEarningDetectors ''Book Allow'' = Some (\<lambda>its text. findByKeyword its (keyword ''Book'') (Some (code ''0104'')))"
  "map_of getEarningDetectors ''ESIS Allow'' = Some (\<lambda>its text. findByKeyword its (keyword ''ESIS'') (Some (code ''0127'')))"
  by (simp_all add: getEarningDetectors_def)

lemma deduction_lookup:
  "map_of getDeductionDetectors ''Income Tax'' = Some (\<lambda>its text. findByKeyword its (keyword ''Income'') (Some (code ''9510'')))"
  "map_of getDeductionDetectors ''Prof Tax'' = Some (\<lambda>its text. findByKeyword its (keyword ''Prof'') (Some (code ''9570'')))"
  "map_of getDeductionDetectors ''R&B'' = Some (\<lambda>its text. findByKeyword its (keyword ''R&B'') (Some (code ''9550'')))"
  "map_of getDeductionDetectors ''GPF Reg Class 4'' = Some (\<lambda>its text. findByKeyword its (keyword ''Class'') (Some (code ''9531'')))"
  "map_of getDeductionDetectors ''GPF Reg'' = Some (guardedDetector (True, seqs [lit ''GPF'', spaces0, lit ''Reg'']) ''9670'' (keyword ''GPF''))"
  "map_of getDeductionDetectors ''NPS Reg'' = Some (\<lambda>its text. findByKeyword its (keyword ''NPS'') (Some (code ''9534'')))"
  "map_of getDeductionDetectors ''Govt Fund'' = Some (guardedDetector (True, seqs [lit ''Govt'', spaces0, lit ''Fund'']) ''9581'' (keyword ''Fund''))"
  "map_of getDeductionDetectors ''Govt Saving'' = Some (guardedDetector (True, seqs [lit ''Govt'', spaces0, lit ''Saving'']) ''9582'' (keyword ''Saving''))"
  by (simp_all add: getDeductionDetectors_def)

lemma foundHeaders_label:
  assumes "distinct (map fst detectors)" and "map_of detectors label = Some detect"
  shows "filter (\<lambda>e. fst e = label) (foundHeaders detectors its) =
     (let result = detect its (join '' '' (map h_text its))
      in if found result then [(label, at_x result)] else [])"
  using assms
proof (induction detectors)
  case Nil
  then show ?case by simp
next
  case (Cons dt detectors)
  have fh: "foundHeaders (dt # detectors) its =
      (let result = snd dt its (join '' '' (map h_text its))
       in if found result then [(fst dt, at_x result)] else []) @ foundHeaders detectors its"
    by (simp add: foundHeaders_def Let_def)
  show ?case
  proof (cases "fst dt = label")
    case True
    with Cons.prems have "snd dt = detect" by (cases dt) simp
    moreover from True Cons.prems have "label \<notin> fst ` set detectors" by simp
    then have "filter (\<lambda>e. fst e = label) (foundHeaders detectors its) = []"
      by (auto simp: foundHeaders_def Let_def filter_empty_conv split: if_splits)
    ultimately show ?thesis
      using True by (simp add: fh Let_def)
  next
    case False
    with Cons.prems have "map_of detectors label = Some detect" "distinct (map fst detectors)"
      by (cases dt; simp)+
    from Cons.IH[OF this(2,1)] False show ?thesis
      by (simp add: fh Let_def)
  qed
qed

lemma nonPrivatePracticeDetector_primary:
  "firstKeywordItem its [nonPrivateToken, keyword ''Practice''] = Some p \<Longrightarrow>
   nonPrivatePracticeDetector its text = \<lparr> found = True, at_x = h_x p \<rparr>"
  by (auto simp: firstKeywordItem_two nonPrivatePracticeDetector_def split: option.splits)

lemma coded_detector:
  assumes "(kind, label, prims, cd) \<in> set codedFields"
    and "firstKeywordItem its prims = Some p"
    and "findItemByText its cd = Some c"
  shows "\<exists>detect. map_of (getDetectors kind) label = Some detect
      \<and> detect its (join '' '' (map h_text its)) = \<lparr> found = True, at_x = h_x p \<rparr>"
proof -
  from assms(1) have "(kind, label, prims, cd) \<in> set codedFields" .
  then show ?thesis
    using assms(2,3) unfolding codedFields_def set_simps insert_iff empty_iff prod.inject
    by (elim disjE conjE FalseE;
        simp add: getDetectors_def earning_lookup deduction_lookup findByKeyword_primary
          nonPrivatePracticeDetector_primary guardedDetector_primary)
qed

text \<open>
  C8. For every catalogue field with a field-code, and every header-token pool that
  contains a primary keyword token \<open>p\<close> (the first one) and a code token: the field's
  detector finds the field at the x-position of \<open>p\<close>, and that is the one position
  recorded for the label in \<open>foundHeaders\<close>.
\<close>

theorem primary_keyword_wins:
  assumes "(kind, label, prims, cd) \<in> set codedFields"
    and "firstKeywordItem its prims = Some p"
    and "findItemByText its cd = Some c"
  shows "\<exists>detect. map_of (getDetectors kind) label = Some detect
      \<and> detect its (join '' '' (map h_text its)) = \<lparr> found = True, at_x = h_x p \<rparr>
      \<and> filter (\<lambda>e. fst e = label) (foundHeaders (getDetectors kind) its) = [(label, h_x p)]"
proof -
  have d: "distinct (map fst (getDetectors kind))"
    by (simp add: getDetectors_def earning_labels_distinct deduction_labels_distinct)
  from coded_detector[OF assms] obtain detect where m: "map_of (getDetectors kind) label = Some detect"
    and r: "detect its (join '' '' (map h_text its)) = \<lparr> found = True, at_x = h_x p \<rparr>"
    by blast
  from foundHeaders_label[OF d m, of its] r m show ?thesis
    by (simp add: Let_def)
qed

theorem primary_keyword_wins_witness:
  "(Earning, ''DA (0103)'', [keyword ''DA''], code ''0103'') \<in> set codedFields
   \<and> firstKeywordItem daPool [keyword ''DA''] = Some (daPool ! 1)
   \<and> findItemByText daPool (code ''0103'') = Some (daPool ! 0)
   \<and> (\<exists>detect. map_of (getDetectors Earning) ''DA (0103)'' = Some detect
      \<and> detect daPool (join '' '' (map h_text daPool)) = \<lparr> found = True, at_x = 205 \<rparr>
      \<and> filter (\<lambda>e. fst e = ''DA (0103)'') (foundHeaders (getDetectors Earning) daPool) =
          [(''DA (0103)'', 205)])"
proof -
  have h1: "(Earning, ''DA (0103)'', [keyword ''DA''], code ''0103'') \<in> set codedFields"
    by (simp add: codedFields_def)
  have h2: "firstKeywordItem daPool [keyword ''DA''] = Some (daPool ! 1)"
    and h3: "findItemByText daPool (code ''0103'') = Some (daPool ! 0)"
    by code_simp+
  have x: "h_x (daPool ! 1) = 205"
    by (simp add: daPool_def)
  from primary_keyword_wins[OF h1 h2 h3] h1 h2 h3 x show ?thesis
    by simp
qed

subsection \<open>Row segmenter\<close>

lemma dataLineIndices_sorted: "sorted_wrt (<) (dataLineIndices ls)"
  by (simp add: dataLineIndices_def sorted_wrt_filter)

lemma dataLineIndices_bound: "i \<in> set (dataLineIndices ls) \<Longrightarrow> i < length ls"
  by (simp add: dataLineIndices_def)

lemma dataLineIndices_nth_less:
  "d1 < d2 \<Longrightarrow> d2 < length (dataLineIndices ls) \<Longrightarrow> dataLineIndices ls ! d1 < dataLineIndices ls ! d2"
  using dataLineIndices_sorted by (rule sorted_wrt_nth_less)

lemma takeWhile_before_stop:
  "sorted_wrt (<) xs \<Longrightarrow> i \<in> set (takeWhile P xs) \<Longrightarrow> j \<in> set xs \<Longrightarrow> \<not> P j \<Longrightarrow> i < (j::nat)"
  by (induction xs) (auto split: if_splits)

lemma thisEmployeeStart_cases:
  "thisEmployeeStart ls dli d = dli ! d \<or>
   (regionStart ls dli d \<le> thisEmployeeStart ls dli d \<and> thisEmployeeStart ls dli d < dli ! d
    \<and> \<not> isSkipLine (lineText ls (thisEmployeeStart ls dli d))
    \<and> (isNamePrefixLine (lineText ls (thisEmployeeStart ls dli d)) \<or> d = 0))"
  by (auto simp: thisEmployeeStart_def find_Some_iff split: option.splits)

lemma blockIndices_upper:
  assumes "i \<in> set (blockIndices ls (dataLineIndices ls) d)" and "Suc d < length (dataLineIndices ls)"
  shows "i < dataLineIndices ls ! Suc d"
proof -
  have "dataLineIndices ls ! d < dataLineIndices ls ! Suc d"
    using assms(2) by (intro dataLineIndices_nth_less) simp_all
  moreover have "nextBoundary ls (dataLineIndices ls) d = dataLineIndices ls ! Suc d"
    using assms(2) by (auto simp: nextBoundary_def)
  ultimately show ?thesis
    using assms(1) by (auto simp: blockIndices_def dest!: set_takeWhileD)
qed

lemma blockIndices_lower:
  assumes "i \<in> set (blockIndices ls (dataLineIndices ls) (Suc d))" and "Suc d < length (dataLineIndices ls)"
  shows "dataLineIndices ls ! d < i"
proof -
  have lt: "dataLineIndices ls ! d < dataLineIndices ls ! Suc d"
    using assms(2) by (intro dataLineIndices_nth_less) simp_all
  have "regionStart ls (dataLineIndices ls) (Suc d) = dataLineIndices ls ! d + 1"
    by (simp add: regionStart_def)
  with thisEmployeeStart_cases[of ls "dataLineIndices ls" "Suc d"] lt
  have "dataLineIndices ls ! d < thisEmployeeStart ls (dataLineIndices ls) (Suc d)"
    by auto
  with lt show ?thesis
    using assms(1) by (auto simp: blockIndices_def dest!: set_takeWhileD)
qed

lemma blockIndices_bound:
  assumes "i \<in> set (blockIndices ls (dataLineIndices ls) d)" and "d < length (dataLineIndices ls)"
  shows "i < length ls"
proof -
  have a: "dataLineIndices ls ! d < length ls"
    using assms(2) by (intro dataLineIndices_bound) simp
  have "nextBoundary ls (dataLineIndices ls) d \<le> length ls"
    using dataLineIndices_bound[of "dataLineIndices ls ! (d + 1)" ls]
    by (auto simp: nextBoundary_def)
  with a show ?thesis
    using assms(1) by (auto simp: blockIndices_def dest!: set_takeWhileD)
qed

lemma blockIndices_adjacent_disjoint:
  assumes "Suc d < length (dataLineIndices ls)"
  shows "set (blockIndices ls (dataLineIndices ls) d) \<inter> set (blockIndices ls (dataLineIndices ls) (Suc d)) = {}"
proof (rule ccontr)
  define a where "a = dataLineIndices ls"
  define tes where "tes = thisEmployeeStart ls a (Suc d)"
  define gap where "gap = filter (\<lambda>i. \<not> isSkipLine (lineText ls i)) [a ! d + 1..<a ! Suc d]"
  assume "\<not> ?thesis"
  then obtain i where i1: "i \<in> set (blockIndices ls a d)" and i2: "i \<in> set (blockIndices ls a (Suc d))"
    unfolding a_def by auto
  have up: "i < a ! Suc d"
    using blockIndices_upper[OF i1[unfolded a_def] assms] by (simp add: a_def)
  have low: "a ! d < i"
    using blockIndices_lower[OF i2[unfolded a_def] assms] by (simp add: a_def)
  have nb: "nextBoundary ls a d = a ! Suc d"
    using assms by (auto simp: nextBoundary_def a_def)
  from i1 low have t: "i \<in> set (takeWhile (\<lambda>i. \<not> test totalPattern (lineText ls i) \<and> \<not> isNamePrefixLine (lineText ls i)) gap)"
    by (auto simp: blockIndices_def nb gap_def)
  from i2 up have b: "tes \<le> i" "i < a ! Suc d"
    by (auto simp: blockIndices_def tes_def dest!: set_takeWhileD)
  then have "tes \<noteq> a ! Suc d" by simp
  with thisEmployeeStart_cases[of ls a "Suc d"]
  have s: "a ! d + 1 \<le> tes" "tes < a ! Suc d" "\<not> isSkipLine (lineText ls tes)" "isNamePrefixLine (lineText ls tes)"
    by (auto simp: tes_def regionStart_def)
  then have "tes \<in> set gap"
    by (simp add: gap_def)
  moreover have "sorted_wrt (<) gap"
    by (simp add: gap_def sorted_wrt_filter)
  ultimately have "i < tes"
    using t s(4) by (intro takeWhile_before_stop[where xs = gap and i = i and j = tes]) auto
  with b(1) show False by simp
qed

lemma blockIndices_disjoint:
  assumes "d1 < d2" and "d2 < length (dataLineIndices ls)"
  shows "set (blockIndices ls (dataLineIndices ls) d1) \<inter> set (blockIndices ls (dataLineIndices ls) d2) = {}"
proof (cases "d2 = Suc d1")
  case True
  with assms blockIndices_adjacent_disjoint[of d1 ls] show ?thesis by simp
next
  case False
  with assms obtain d where d: "d2 = Suc d" "Suc d1 \<le> d" "Suc d1 < d2"
    by (cases d2) auto
  have mid: "dataLineIndices ls ! Suc d1 \<le> dataLineIndices ls ! d"
  proof (cases "Suc d1 = d")
    case True
    then show ?thesis by simp
  next
    case False
    with d assms(2) have "dataLineIndices ls ! Suc d1 < dataLineIndices ls ! d"
      by (intro dataLineIndices_nth_less) simp_all
    then show ?thesis by simp
  qed
  show ?thesis
  proof (rule ccontr)
    assume "\<not> ?thesis"
    then obtain i where i1: "i \<in> set (blockIndices ls (dataLineIndices ls) d1)"
      and i2: "i \<in> set (blockIndices ls (dataLineIndices ls) (Suc d))"
      using d(1) by auto
    have "i < dataLineIndices ls ! Suc d1"
      using i1 d assms(2) by (intro blockIndices_upper) simp_all
    moreover have "dataLineIndices ls ! d < i"
      using i2 d assms(2) by (intro blockIndices_lower) simp_all
    ultimately show False
      using mid by simp
  qed
qed

lemma sorted_wrt_map_filter:
  assumes "sorted_wrt (<) (ds::nat list)"
    and "\<And>d1 d2 b1 b2. d1 < d2 \<Longrightarrow> d1 \<in> set ds \<Longrightarrow> d2 \<in> set ds \<Longrightarrow> f d1 = Some b1 \<Longrightarrow> f d2 = Some b2 \<Longrightarrow> R b1 b2"
  shows "sorted_wrt R (List.map_filter f ds)"
  using assms
proof (induction ds)
  case Nil
  then show ?case by (simp add: List.map_filter_simps)
next
  case (Cons d ds)
  have IH: "sorted_wrt R (List.map_filter f ds)"
    using Cons.prems by (intro Cons.IH) auto
  show ?case
  proof (cases "f d")
    case None
    with IH show ?thesis by (simp add: List.map_filter_simps)
  next
    case (Some b)
    have "R b b2" if "b2 \<in> set (List.map_filter f ds)" for b2
    proof -
      from that obtain d2 where "d2 \<in> set ds" "f d2 = Some b2"
        by (auto simp: List.map_filter_def)
      with Cons.prems(1) Some show ?thesis
        by (intro Cons.prems(2)[of d d2]) auto
    qed
    with IH Some show ?thesis by (simp add: List.map_filter_simps)
  qed
qed

lemma rawLines_makeBlock:
  "makeBlock pg dli d = Some b \<Longrightarrow> rawLines b = map (\<lambda>i. lines pg ! i) (blockIndices (lines pg) dli d)"
  by (auto simp: makeBlock_def split: option.splits list.splits)

text \<open>
  C7. On a page whose lines are pairwise different (as the lines of a reconstructed page
  are, see \<open>extractPage_distinct\<close>), any two blocks that row segmentation makes of the page,
  in particular the blocks of two consecutive anchor lines, have no line in common.
\<close>

theorem pageBlocks_disjoint:
  assumes "distinct (lines pg)" and "i < j" and "j < length (pageBlocks pg)"
  shows "set (rawLines (pageBlocks pg ! i)) \<inter> set (rawLines (pageBlocks pg ! j)) = {}"
proof -
  define a where "a = dataLineIndices (lines pg)"
  have "sorted_wrt (\<lambda>b1 b2. set (rawLines b1) \<inter> set (rawLines b2) = {}) (List.map_filter (makeBlock pg a) [0..<length a])"
  proof (rule sorted_wrt_map_filter)
    show "sorted_wrt (<) [0..<length a]" by simp
  next
    fix d1 d2 b1 b2
    assume d: "d1 < d2" "d2 \<in> set [0..<length a]" and b: "makeBlock pg a d1 = Some b1" "makeBlock pg a d2 = Some b2"
    then have d2: "d2 < length a" and d1: "d1 < length a" by simp_all
    have dis: "set (blockIndices (lines pg) a d1) \<inter> set (blockIndices (lines pg) a d2) = {}"
      using blockIndices_disjoint[OF d(1), of "lines pg"] d2 by (simp add: a_def)
    have bd: "\<And>k. k \<in> set (blockIndices (lines pg) a d1) \<Longrightarrow> k < length (lines pg)"
      "\<And>k. k \<in> set (blockIndices (lines pg) a d2) \<Longrightarrow> k < length (lines pg)"
      using blockIndices_bound[of _ "lines pg"] d1 d2 by (auto simp: a_def)
    show "set (rawLines b1) \<inter> set (rawLines b2) = {}"
    proof (rule ccontr)
      assume "\<not> ?thesis"
      then obtain k1 k2 where k: "k1 \<in> set (blockIndices (lines pg) a d1)"
        "k2 \<in> set (blockIndices (lines pg) a d2)" "lines pg ! k1 = lines pg ! k2"
        by (auto simp: rawLines_makeBlock[OF b(1)] rawLines_makeBlock[OF b(2)])
      with bd assms(1) have "k1 = k2"
        by (simp add: nth_eq_iff_index_eq)
      with k dis show False by auto
    qed
  qed
  then have "sorted_wrt (\<lambda>b1 b2. set (rawLines b1) \<inter> set (rawLines b2) = {}) (pageBlocks pg)"
    by (simp add: pageBlocks_def Let_def a_def)
  from sorted_wrt_nth_less[OF this assms(2,3)] show ?thesis .
qed

theorem pageBlocks_disjoint_witness:
  "distinct (lines twoAnchorPage) \<and> (0::nat) < 1 \<and> 1 < length (pageBlocks twoAnchorPage)
   \<and> set (rawLines (pageBlocks twoAnchorPage ! 0)) \<inter> set (rawLines (pageBlocks twoAnchorPage ! 1)) = {}"
proof -
  have h: "distinct (lines twoAnchorPage)" "(0::nat) < 1" "1 < length (pageBlocks twoAnchorPage)"
    by code_simp+
  from pageBlocks_disjoint[OF h] h show ?thesis
    by blast
qed

subsection \<open>Block parser and record set\<close>

lemma extractText_noValuesDoc: "extractText noValuesDoc = noValuesExtracted"
  by code_simp

lemma detectType_noValuesDoc: "detectType (rawText noValuesExtracted) = Inr noValuesMeta"
  by code_simp

lemma headers_noValuesDoc:
  "parseHeadersSmart (lines noValuesPage) Earning =
     \<lparr> header_labels = [], header_isValid = False, rawHeaderText = [] \<rparr>"
  by code_simp

lemma segmentRows_noValuesDoc:
  "segmentRows [noValuesPage] = \<lparr> employees = [noValuesBlock], seg_totalRow = None \<rparr>"
  by code_simp

lemma parse_noValuesDoc: "parseEmployeeBlock noValuesBlock Earning = noValuesParsed"
  by code_simp

lemma showNat_1: "showNat (Suc 0) = ''1''"
  by code_simp

lemma parseSinglePDF_noValuesDoc:
  "parseSinglePDF ''e.pdf'' noValuesDoc =
     ([(''Extracting'', ''Reading text from e.pdf...''),
       (''Detecting'', ''Detecting PDF type for e.pdf...''),
       (''Headers'', ''Parsing headers (earning) from e.pdf...''),
       (''Segmenting'', ''Segmenting employee rows from e.pdf...''),
       (''Parsing'', ''Parsing 1 employee blocks from e.pdf...'')], Inr noValuesResult)"
proof -
  have p: "pages noValuesExtracted = [noValuesPage]" and m: "type noValuesMeta = Earning"
    by (simp_all add: noValuesExtracted_def noValuesMeta_def)
  have b: "buildRecord [] Earning noValuesBlock =
      \<lparr> hrpn = ''00125678'', name = [], designation = [], rfields = [], rawValues = [] \<rparr>"
    by (simp add: buildRecord_def Let_def parse_noValuesDoc noValuesParsed_def normalizeFields_def)
  show ?thesis
    by (simp add: parseSinglePDF_def Let_def extractText_noValuesDoc detectType_noValuesDoc p m
        headers_noValuesDoc segmentRows_noValuesDoc b noValuesResult_def typeName_def showNat_1)
qed

lemma parsedBlocks_noValuesDoc: "parsedBlocks Earning noValuesDoc = [noValuesParsed]"
  by (simp add: parsedBlocks_def extractText_noValuesDoc noValuesExtracted_def
      segmentRows_noValuesDoc parse_noValuesDoc)

text \<open>
  C5 as stated fails: the one block of this earning document parses to no numeric value,
  and the document's record set still holds a record for it; the progress callback gets
  the five phase events and no diagnostic.
\<close>

theorem no_values_block_yields_record:
  "map values (parsedBlocks Earning noValuesDoc) = [[]]
   \<and> map hrpn (recordsOf (snd (parseSinglePDF ''e.pdf'' noValuesDoc))) = [''00125678'']
   \<and> map fst (fst (parseSinglePDF ''e.pdf'' noValuesDoc)) =
       [''Extracting'', ''Detecting'', ''Headers'', ''Segmenting'', ''Parsing'']"
  by (simp add: parsedBlocks_noValuesDoc parseSinglePDF_noValuesDoc recordsOf_def noValuesResult_def
      noValuesParsed_def)

lemma hrpn_parseEmployeeBlock: "hrpn (parseEmployeeBlock b t) = hrpn b"
  by (simp add: parseEmployeeBlock_def Let_def)

lemma parseSinglePDF_Inr:
  assumes "snd (parseSinglePDF fname doc) = Inr res"
  shows "records res = map (buildRecord (normalizedHeaders res) (result_type res))
           (employees (segmentRows (pages (extractText doc))))"
    and "map fst (fst (parseSinglePDF fname doc)) =
           [''Extracting'', ''Detecting'', ''Headers'', ''Segmenting'', ''Parsing'']"
  using assms
  by (auto simp: parseSinglePDF_def Let_def split: sum.splits list.splits)

lemma normalizeFields_zero:
  "kv \<in> set (normalizeFields hs []) \<Longrightarrow> snd kv = 0"
proof -
  have "\<forall>kv \<in> set (fold (\<lambda>i rec. AList.update (fst (normalizeHeader (hs ! i))) (0::number) rec) is acc). snd kv = 0"
    if "\<forall>kv \<in> set acc. snd kv = 0" for "is" acc
    using that
  proof (induction "is" arbitrary: acc)
    case Nil
    then show ?case by simp
  next
    case (Cons i "is")
    have "set (AList.update (fst (normalizeHeader (hs ! i))) (0::number) acc)
        \<subseteq> insert (fst (normalizeHeader (hs ! i)), 0) (set acc)"
      by (induction acc) auto
    with Cons.prems have "\<forall>kv \<in> set (AList.update (fst (normalizeHeader (hs ! i))) (0::number) acc). snd kv = 0"
      by auto
    from Cons.IH[OF this] show ?case by simp
  qed
  from this[of "[]" "[0..<length hs]"] show "kv \<in> set (normalizeFields hs []) \<Longrightarrow> snd kv = 0"
    by (simp add: normalizeFields_def)
qed

lemma pageBlocks_anchor:
  assumes "b \<in> set (pageBlocks pg)"
  shows "test anchorLine (line_text (dataLine b))"
proof -
  from assms obtain d where d: "d < length (dataLineIndices (lines pg))"
    and b: "makeBlock pg (dataLineIndices (lines pg)) d = Some b"
    by (auto simp: pageBlocks_def Let_def List.map_filter_def)
  from d have "dataLineIndices (lines pg) ! d \<in> set (dataLineIndices (lines pg))"
    by simp
  then have "test anchorLine (line_text (lines pg ! (dataLineIndices (lines pg) ! d)))"
    by (simp add: dataLineIndices_def)
  moreover from b have "dataLine b = lines pg ! (dataLineIndices (lines pg) ! d)"
    by (auto simp: makeBlock_def split: option.splits list.splits)
  ultimately show ?thesis by simp
qed

text \<open>
  C5 (amended). When a document parses, every block of row segmentation yields exactly one
  record, in order, with the block's identifier and the values of its parse; a record
  without values has every schema field 0; every block stands on a line whose
  serial-plus-identifier prefix parses (other lines start no block); and no error is
  reported to the progress callback.
\<close>

theorem every_block_yields_record:
  assumes "snd (parseSinglePDF fname doc) = Inr res"
  shows "length (records res) = length (employees (segmentRows (pages (extractText doc))))
    \<and> map hrpn (records res) = map hrpn (employees (segmentRows (pages (extractText doc))))
    \<and> map rawValues (records res) = map values (parsedBlocks (result_type res) doc)
    \<and> (\<forall>r \<in> set (records res). rawValues r = [] \<longrightarrow> (\<forall>kv \<in> set (rfields r). snd kv = 0))
    \<and> (\<forall>b \<in> set (employees (segmentRows (pages (extractText doc)))).
          test anchorLine (line_text (dataLine b)))
    \<and> ''Error'' \<notin> set (map fst (fst (parseSinglePDF fname doc)))"
proof -
  note r = parseSinglePDF_Inr[OF assms]
  have "\<forall>r \<in> set (records res). rawValues r = [] \<longrightarrow> (\<forall>kv \<in> set (rfields r). snd kv = 0)"
    unfolding r(1) by (auto simp: buildRecord_def Let_def dest: normalizeFields_zero)
  moreover have "\<forall>b \<in> set (employees (segmentRows (pages (extractText doc)))).
      test anchorLine (line_text (dataLine b))"
    by (auto simp: segmentRows_def intro: pageBlocks_anchor)
  ultimately show ?thesis
    unfolding r
    by (simp add: buildRecord_def Let_def hrpn_parseEmployeeBlock parsedBlocks_def o_def)
qed

theorem every_block_yields_record_witness:
  "snd (parseSinglePDF ''e.pdf'' noValuesDoc) = Inr noValuesResult
   \<and> length (records noValuesResult) = length (employees (segmentRows (pages (extractText noValuesDoc))))
   \<and> map hrpn (records noValuesResult) = map hrpn (employees (segmentRows (pages (extractText noValuesDoc))))
   \<and> map rawValues (records noValuesResult) = map values (parsedBlocks (result_type noValuesResult) noValuesDoc)
   \<and> (\<forall>r \<in> set (records noValuesResult). rawValues r = [] \<longrightarrow> (\<forall>kv \<in> set (rfields r). snd kv = 0))
   \<and> (\<forall>b \<in> set (employees (segmentRows (pages (extractText noValuesDoc)))).
          test anchorLine (line_text (dataLine b)))
   \<and> ''Error'' \<notin> set (map fst (fst (parseSinglePDF ''e.pdf'' noValuesDoc)))"
proof -
  have h: "snd (parseSinglePDF ''e.pdf'' noValuesDoc) = Inr noValuesResult"
    by (simp add: parseSinglePDF_noValuesDoc)
  from every_block_yields_record[OF h] h show ?thesis
    by blast
qed

subsection \<open>Batch processing\<close>

lemma detectType_no_marker:
  "\<not> str_includes (toLowerCase t) ''earning side'' \<Longrightarrow>
   \<not> str_includes (toLowerCase t) ''deduction side'' \<Longrightarrow> detectType t = Inl CannotDetectType"
  by (simp add: detectType_def Let_def)

lemma parseSinglePDF_no_marker:
  assumes "detectType (rawText (extractText doc)) = Inl e"
  shows "parseSinglePDF fname doc =
     ([(''Extracting'', ''Reading text from '' @ fname @ ''...''),
       (''Detecting'', ''Detecting PDF type for '' @ fname @ ''...'')], Inl e)"
  using assms by (simp add: parseSinglePDF_def Let_def)

lemma processFile_failed:
  assumes "snd (parseSinglePDF (file_name f) (buffer f)) = Inl e"
  shows "processFile f st = st\<lparr>progress := progress st
      @ [(''Processing'', ''Processing '' @ file_name f @ ''...'')]
      @ fst (parseSinglePDF (file_name f) (buffer f))
      @ [(''Error'', ''Failed to parse '' @ file_name f @ '': '' @ errorMessage e)]\<rparr>"
  using assms by (cases "parseSinglePDF (file_name f) (buffer f)") (simp add: processFile_def)

lemma core_processFile: "core (processFile f st) = core (processFile f (core st))"
  by (cases "parseSinglePDF (file_name f) (buffer f)")
     (auto simp: processFile_def core_def Let_def split: sum.splits option.splits)

lemma core_core [simp]: "core (core st) = core st"
  by (simp add: core_def)

lemma core_fold_processFile: "core (fold processFile fs st) = core (fold processFile fs (core st))"
proof (induction fs arbitrary: st)
  case Nil
  show ?case by simp
next
  case (Cons f fs)
  have "core (fold processFile (f # fs) st) = core (fold processFile fs (core (processFile f st)))"
    using Cons.IH[of "processFile f st"] by simp
  also have "\<dots> = core (fold processFile fs (core (processFile f (core st))))"
    by (simp add: core_processFile[of f st])
  also have "\<dots> = core (fold processFile (f # fs) (core st))"
    using Cons.IH[of "processFile f (core st)"] by simp
  finally show ?case .
qed

lemma finishBatch_core: "fst (finishBatch st) = fst (finishBatch (core st))"
  by (simp add: finishBatch_def core_def Let_def)

lemma progress_processFile: "set (progress st) \<subseteq> set (progress (processFile f st))"
  by (cases "parseSinglePDF (file_name f) (buffer f)")
     (auto simp: processFile_def Let_def split: sum.splits option.splits)

lemma progress_fold_processFile: "set (progress st) \<subseteq> set (progress (fold processFile fs st))"
proof (induction fs arbitrary: st)
  case Nil
  show ?case by simp
next
  case (Cons f fs)
  from progress_processFile[of st f] Cons.IH[of "processFile f st"] show ?case
    by auto
qed

lemma progress_finishBatch: "set (progress st) \<subseteq> set (snd (finishBatch st))"
  by (auto simp: finishBatch_def Let_def)

text \<open>
  C3. For a document whose text contains neither marker, in any letter case: \<open>detectType\<close>
  throws, and so does \<open>parseSinglePDF\<close>; in a batch, the result is the result of the batch
  without that document, whatever documents come before and after it, and the progress
  callback is called with the step \<open>Error\<close> for that document.
\<close>

theorem undetectable_document_isolated:
  assumes "\<not> str_includes (toLowerCase (rawText (extractText (buffer f)))) ''earning side''"
    and "\<not> str_includes (toLowerCase (rawText (extractText (buffer f)))) ''deduction side''"
  shows "detectType (rawText (extractText (buffer f))) = Inl CannotDetectType
    \<and> snd (parseSinglePDF (file_name f) (buffer f)) = Inl CannotDetectType
    \<and> fst (processPayrollFromFiles (fs1 @ f # fs2)) = fst (processPayrollFromFiles (fs1 @ fs2))
    \<and> (''Error'', ''Failed to parse '' @ file_name f @ '': '' @ errorMessage CannotDetectType)
        \<in> set (snd (processPayrollFromFiles (fs1 @ f # fs2)))"
proof -
  let ?S = "fold processFile fs1 emptyBatch"
  let ?ev = "(''Error'', ''Failed to parse '' @ file_name f @ '': '' @ errorMessage CannotDetectType)"
  have dt: "detectType (rawText (extractText (buffer f))) = Inl CannotDetectType"
    using assms by (rule detectType_no_marker)
  have ps: "snd (parseSinglePDF (file_name f) (buffer f)) = Inl CannotDetectType"
    by (simp add: parseSinglePDF_no_marker[OF dt])
  have "core (processFile f ?S) = core ?S"
    by (simp add: processFile_failed[OF ps] core_def)
  then have "core (fold processFile (fs1 @ f # fs2) emptyBatch) = core (fold processFile (fs1 @ fs2) emptyBatch)"
    using core_fold_processFile[of fs2 "processFile f ?S"] core_fold_processFile[of fs2 ?S]
    by simp
  then have res: "fst (processPayrollFromFiles (fs1 @ f # fs2)) = fst (processPayrollFromFiles (fs1 @ fs2))"
    using finishBatch_core[of "fold processFile (fs1 @ f # fs2) emptyBatch"]
      finishBatch_core[of "fold processFile (fs1 @ fs2) emptyBatch"]
    by (simp add: processPayrollFromFiles_def)
  have "?ev \<in> set (progress (processFile f ?S))"
    by (simp add: processFile_failed[OF ps])
  with progress_fold_processFile[of "processFile f ?S" fs2]
  have "?ev \<in> set (progress (fold processFile (fs1 @ f # fs2) emptyBatch))"
    by auto
  with progress_finishBatch[of "fold processFile (fs1 @ f # fs2) emptyBatch"]
  have "?ev \<in> set (snd (processPayrollFromFiles (fs1 @ f # fs2)))"
    by (auto simp: processPayrollFromFiles_def)
  with dt ps res show ?thesis by simp
qed

theorem undetectable_document_isolated_witness:
  "\<not> str_includes (toLowerCase (rawText (extractText (buffer unknownFile)))) ''earning side''
   \<and> \<not> str_includes (toLowerCase (rawText (extractText (buffer unknownFile)))) ''deduction side''
   \<and> detectType (rawText (extractText (buffer unknownFile))) = Inl CannotDetectType
   \<and> snd (parseSinglePDF (file_name unknownFile) (buffer unknownFile)) = Inl CannotDetectType
   \<and> fst (processPayrollFromFiles ([noValuesFile] @ unknownFile # [noValuesFile])) =
       fst (processPayrollFromFiles ([noValuesFile] @ [noValuesFile]))
   \<and> (''Error'', ''Failed to parse '' @ file_name unknownFile @ '': ''
         @ errorMessage CannotDetectType)
        \<in> set (snd (processPayrollFromFiles ([noValuesFile] @ unknownFile # [noValuesFile])))"
proof -
  have h: "\<not> str_includes (toLowerCase (rawText (extractText (buffer unknownFile)))) ''earning side''"
    "\<not> str_includes (toLowerCase (rawText (extractText (buffer unknownFile)))) ''deduction side''"
    by code_simp+
  from undetectable_document_isolated[OF h, of "[noValuesFile]" "[noValuesFile]"] h show ?thesis
    by blast
qed

end
